theory Spec2Isabelle
  imports Complex_Main "HOL-Library.Char_ord" "HOL-Library.List_Lexorder"
    "HOL-Library.Product_Lexorder" "HOL-Library.Multiset" "HOL-Library.Word"
begin

section \<open>Values, tables and library parameters\<close>

text \<open>
  The notebook \<^verbatim>\<open>python_solution/parse_data.ipynb\<close> reads a table of applications
  (\<^verbatim>\<open>id\<close>, \<^verbatim>\<open>application_date\<close>, \<^verbatim>\<open>contracts\<close>), expands the JSON text of
  \<^verbatim>\<open>contracts\<close> into one row per contract, converts the columns and computes three
  features per \<^verbatim>\<open>id\<close>.

  A value that \<^verbatim>\<open>json.loads\<close> returns. \<open>JNull\<close> is Python's \<^verbatim>\<open>None\<close>; a \<^verbatim>\<open>dict\<close> is an
  association list read with \<open>map_of\<close>; a JSON number is a Python \<^verbatim>\<open>int\<close> or a
  \<^verbatim>\<open>float\<close>. The type \<open>'f\<close> stands for the 64-bit floats, whose arithmetic is a
  parameter of the model (see \<open>lib\<close> below).
\<close>

datatype 'f json = JNull | JBool bool | JInt int | JFloat 'f | JStr string
  | JArr "'f json list" | JObj "(string \<times> 'f json) list"

text \<open>A number of a numeric column: of an \<^verbatim>\<open>int64\<close> column or of a \<^verbatim>\<open>float64\<close> column.\<close>

datatype 'f number = I64 "64 word" | F64 'f

text \<open>
  A cell of a DataFrame: missing (\<^verbatim>\<open>None\<close>, \<^verbatim>\<open>NaN\<close>, \<^verbatim>\<open>NaT\<close>, \<^verbatim>\<open>pd.NA\<close>), a Python
  object as it came out of the JSON, a number of a numeric column, or a Timestamp of
  a datetime column, counted in nanoseconds since the epoch as pandas stores it.
\<close>

datatype 'f cell = NA | Obj "'f json" | Num "'f number" | Time int

datatype error = KeyError | TypeError | AttributeError | IndexError | JSONDecodeError
  | OutOfBoundsDatetime

text \<open>One row of \<^verbatim>\<open>data.csv\<close> as \<^verbatim>\<open>pd.read_csv\<close> returns it; an empty field is \<open>None\<close>.\<close>

record raw_record =
  csv_id :: "int option"
  csv_application_date :: "string option"
  csv_contracts :: "string option"

text \<open>
  One row of the contract table. Before the conversion every column holds cells;
  after it the date columns hold Timestamps or \<^verbatim>\<open>NaT\<close> and the amounts numbers or
  \<^verbatim>\<open>NaN\<close>, which is the type the aggregating functions read.
\<close>

record ('t, 'n, 'f) row =
  id' :: "int option"
  application_date :: 't
  contract_id :: "'f cell"
  bank :: "'f cell"
  summa :: 'n
  loan_summa :: 'n
  claim_date :: 't
  claim_id :: "'f cell"
  contract_date :: 't

type_synonym 'f frame_row = "('f cell, 'f cell, 'f) row"
type_synonym 'f typed_row = "(int option, 'f number option, 'f) row"

text \<open>
  The library functions the notebook calls are parameters of the model:
  \<^item> \<open>json_loads\<close>: \<^verbatim>\<open>json.loads\<close>, \<open>None\<close> when it raises \<^verbatim>\<open>JSONDecodeError\<close>;
  \<^item> \<open>to_datetime_guess g s\<close>: \<^verbatim>\<open>pd.to_datetime(..., errors='coerce')\<close> on the text \<open>s\<close>
    of a column whose first text is \<open>g\<close> (pandas guesses the format from it), \<open>None\<close>
    for \<^verbatim>\<open>NaT\<close>;
  \<^item> \<open>to_datetime_dmy\<close>: \<^verbatim>\<open>pd.to_datetime(..., format='%d.%m.%Y', errors='coerce')\<close> on
    one object;
  \<^item> \<open>to_numeric\<close>: \<^verbatim>\<open>pd.to_numeric(..., errors='coerce')\<close> on one object: an integer,
    a float, or \<open>None\<close> for \<^verbatim>\<open>NaN\<close>;
  \<^item> the floats: \<open>np_isnan\<close>, the sum \<open>np_sum\<close> of a float column without its
    \<^verbatim>\<open>NaN\<close> (with its rounding, and with \<^verbatim>\<open>inf\<close> and \<^verbatim>\<open>NaN\<close> results), the test
    \<open>np_positive x\<close> for \<^verbatim>\<open>x > 0\<close>, and the float \<open>np_float i\<close> of an integer.
\<close>

record 'f lib =
  json_loads :: "string \<Rightarrow> 'f json option"
  to_datetime_guess :: "string \<Rightarrow> string \<Rightarrow> int option"
  to_datetime_dmy :: "'f json \<Rightarrow> int option"
  to_numeric :: "'f json \<Rightarrow> 'f number option"
  np_isnan :: "'f \<Rightarrow> bool"
  np_sum :: "'f list \<Rightarrow> 'f"
  np_positive :: "'f \<Rightarrow> bool"
  np_float :: "int \<Rightarrow> 'f"

section \<open>parse\_contracts\<close>

text \<open>
  \<^verbatim>\<open>data.sort_values(by=['id', 'application_date', 'contracts'])\<close>: a stable sort,
  ascending on the three columns in turn, a missing value after every present one
  (\<^verbatim>\<open>na_position='last'\<close>). The dates are still text here and compare as Python
  strings do.
\<close>

definition na_last :: "'a option \<Rightarrow> 'a \<Rightarrow> nat \<times> 'a" where
  "na_last v d = (case v of None \<Rightarrow> (1, d) | Some x \<Rightarrow> (0, x))"

definition sort_key_of :: "raw_record \<Rightarrow> (nat \<times> int) \<times> (nat \<times> string) \<times> (nat \<times> string)" where
  "sort_key_of r =
     (na_last (csv_id r) 0, na_last (csv_application_date r) [], na_last (csv_contracts r) [])"

definition sort_values :: "raw_record list \<Rightarrow> raw_record list" where
  "sort_values data = sort_key sort_key_of data"

text \<open>
  \<^verbatim>\<open>.drop_duplicates(subset=['contracts'], keep='last')\<close>: a row goes when a later row
  has the same \<^verbatim>\<open>contracts\<close>; two missing values count as the same.
\<close>

fun drop_duplicates :: "raw_record list \<Rightarrow> raw_record list" where
  "drop_duplicates [] = []"
| "drop_duplicates (r # rs) =
     (if csv_contracts r \<in> set (map csv_contracts rs) then drop_duplicates rs
      else r # drop_duplicates rs)"

text \<open>\<^verbatim>\<open>contract.get(key)\<close> on a \<^verbatim>\<open>dict\<close>: \<^verbatim>\<open>None\<close> when the key is absent.\<close>

definition get :: "(string \<times> 'f json) list \<Rightarrow> string \<Rightarrow> 'f cell" where
  "get d k = (case map_of d k of None \<Rightarrow> NA | Some JNull \<Rightarrow> NA | Some v \<Rightarrow> Obj v)"

definition text_cell :: "string option \<Rightarrow> 'f cell" where
  "text_cell v = (case v of None \<Rightarrow> NA | Some s \<Rightarrow> Obj (JStr s))"

text \<open>
  The body of \<^verbatim>\<open>for contract in contracts\<close>: \<^verbatim>\<open>.get\<close> exists on a \<^verbatim>\<open>dict\<close> only, any
  other element raises \<^verbatim>\<open>AttributeError\<close>, which the \<^verbatim>\<open>except json.JSONDecodeError\<close>
  does not catch.
\<close>

definition make_row :: "int option \<Rightarrow> string option \<Rightarrow> 'f json \<Rightarrow> error + 'f frame_row" where
  "make_row id_value app_date contract =
     (case contract of
        JObj d \<Rightarrow> Inr \<lparr> id' = id_value, application_date = text_cell app_date,
                       contract_id = get d ''contract_id'', bank = get d ''bank'',
                       summa = get d ''summa'', loan_summa = get d ''loan_summa'',
                       claim_date = get d ''claim_date'', claim_id = get d ''claim_id'',
                       contract_date = get d ''contract_date'' \<rparr>
      | _ \<Rightarrow> Inl AttributeError)"

fun contract_rows ::
  "int option \<Rightarrow> string option \<Rightarrow> 'f json list \<Rightarrow> error + 'f frame_row list" where
  "contract_rows id_value app_date [] = Inr []"
| "contract_rows id_value app_date (c # cs) =
     (case make_row id_value app_date c of
        Inl e \<Rightarrow> Inl e
      | Inr r \<Rightarrow> (case contract_rows id_value app_date cs of
                    Inl e \<Rightarrow> Inl e
                  | Inr rs \<Rightarrow> Inr (r # rs)))"

text \<open>
  What Python's \<^verbatim>\<open>for contract in contracts\<close> iterates over: the elements of a list,
  the one-character strings of a string; a number, a boolean or \<^verbatim>\<open>None\<close> is not
  iterable (\<^verbatim>\<open>TypeError\<close>). A \<^verbatim>\<open>dict\<close> never reaches the loop: the code wraps it in a
  list first.
\<close>

definition iterate :: "'f json \<Rightarrow> error + 'f json list" where
  "iterate v =
     (case v of
        JArr cs \<Rightarrow> Inr cs
      | JStr s \<Rightarrow> Inr (map (\<lambda>c. JStr [c]) s)
      | JObj d \<Rightarrow> Inr (map (\<lambda>(k, _). JStr k) d)
      | _ \<Rightarrow> Inl TypeError)"

text \<open>One pass of \<^verbatim>\<open>for _, row in data.iterrows()\<close>: the rows one record appends.\<close>

definition record_rows :: "'f lib \<Rightarrow> raw_record \<Rightarrow> error + 'f frame_row list" where
  "record_rows L r =
     (case csv_contracts r of
        None \<Rightarrow> Inr []
      | Some contracts_str \<Rightarrow>
          if contracts_str = '''' then Inr []
          else (case json_loads L contracts_str of
                  None \<Rightarrow> Inr []
                | Some contracts \<Rightarrow>
                    (case iterate (case contracts of JObj d \<Rightarrow> JArr [contracts] | _ \<Rightarrow> contracts) of
                       Inl e \<Rightarrow> Inl e
                     | Inr cs \<Rightarrow> contract_rows (csv_id r) (csv_application_date r) cs)))"

fun parse_loop :: "'f lib \<Rightarrow> raw_record list \<Rightarrow> error + 'f frame_row list" where
  "parse_loop L [] = Inr []"
| "parse_loop L (r # rs) =
     (case record_rows L r of
        Inl e \<Rightarrow> Inl e
      | Inr xs \<Rightarrow> (case parse_loop L rs of
                    Inl e \<Rightarrow> Inl e
                  | Inr ys \<Rightarrow> Inr (xs @ ys)))"

text \<open>The result is \<^verbatim>\<open>pd.DataFrame(rows)\<close>; with no row it has no column either.\<close>

definition parse_contracts :: "'f lib \<Rightarrow> raw_record list \<Rightarrow> error + 'f frame_row list" where
  "parse_contracts L data = parse_loop L (drop_duplicates (sort_values data))"

section \<open>convert\_data\_types\<close>

text \<open>
  \<^verbatim>\<open>df['application_date'].str\<close> exists on a column of texts only: pandas raises
  \<^verbatim>\<open>AttributeError\<close> (``Can only use .str accessor with string values'') on a
  datetime column and on a column with no text at all, which it holds as floats.
\<close>

definition is_text :: "'f cell \<Rightarrow> bool" where
  "is_text c = (case c of Obj (JStr _) \<Rightarrow> True | _ \<Rightarrow> False)"

definition str_accessor_ok :: "'f cell list \<Rightarrow> bool" where
  "str_accessor_ok col = list_ex is_text col"

text \<open>
  \<^verbatim>\<open>.str.split().str[0]\<close>: the first token of Python's \<^verbatim>\<open>str.split()\<close>, which cuts at
  runs of whitespace (the ASCII ones are modelled); no token, or no text, gives
  \<^verbatim>\<open>NaN\<close>.
\<close>

definition is_space :: "char \<Rightarrow> bool" where
  "is_space c = (c \<in> set [CHR '' '', CHR 0x09, CHR 0x0A, CHR 0x0B, CHR 0x0C, CHR 0x0D,
                           CHR 0x1C, CHR 0x1D, CHR 0x1E, CHR 0x1F])"

definition first_token :: "string \<Rightarrow> string" where
  "first_token s = takeWhile (\<lambda>c. \<not> is_space c) (dropWhile is_space s)"

definition str_split_first :: "'f cell \<Rightarrow> 'f cell" where
  "str_split_first c =
     (case c of
        Obj (JStr s) \<Rightarrow> (if first_token s = [] then NA else Obj (JStr (first_token s)))
      | _ \<Rightarrow> NA)"

text \<open>
  A Timestamp is a signed 64-bit count of nanoseconds, the least value standing for
  \<^verbatim>\<open>NaT\<close>: the dates from 1677-09-21 to 2262-04-11. With \<^verbatim>\<open>errors='coerce'\<close> a date
  outside becomes \<^verbatim>\<open>NaT\<close>.
\<close>

definition ts_max :: int where
  "ts_max = 9223372036854775807"

definition in_bounds :: "int \<Rightarrow> bool" where
  "in_bounds t = (- ts_max \<le> t \<and> t \<le> ts_max)"

definition stamp :: "int option \<Rightarrow> 'f cell" where
  "stamp t = (case t of None \<Rightarrow> NA | Some x \<Rightarrow> if in_bounds x then Time x else NA)"

text \<open>
  \<^verbatim>\<open>pd.to_datetime(col, errors='coerce')\<close> on the column of tokens: the format is
  guessed from the first text of the column.
\<close>

definition first_text :: "'f cell list \<Rightarrow> string option" where
  "first_text col =
     (case filter is_text col of Obj (JStr s) # _ \<Rightarrow> Some s | _ \<Rightarrow> None)"

definition to_datetime :: "'f lib \<Rightarrow> 'f cell list \<Rightarrow> 'f cell list" where
  "to_datetime L col =
     map (\<lambda>c. case c of
                 Obj (JStr s) \<Rightarrow>
                   (case first_text col of
                      None \<Rightarrow> NA
                    | Some g \<Rightarrow> stamp (to_datetime_guess L g s))
               | Time t \<Rightarrow> Time t
               | _ \<Rightarrow> NA) col"

text \<open>
  \<^verbatim>\<open>pd.to_datetime(col, format='%d.%m.%Y', errors='coerce')\<close>, cell by cell. A column
  that is a datetime column already is returned as it is.
\<close>

definition json_of :: "'f number \<Rightarrow> 'f json" where
  "json_of n = (case n of I64 w \<Rightarrow> JInt (sint w) | F64 x \<Rightarrow> JFloat x)"

definition to_datetime_format :: "'f lib \<Rightarrow> 'f cell \<Rightarrow> 'f cell" where
  "to_datetime_format L c =
     (case c of
        NA \<Rightarrow> NA
      | Time t \<Rightarrow> Time t
      | Obj v \<Rightarrow> stamp (to_datetime_dmy L v)
      | Num n \<Rightarrow> stamp (to_datetime_dmy L (json_of n)))"

text \<open>
  \<^verbatim>\<open>pd.to_numeric(col, errors='coerce')\<close> on a column. Every cell is read as a number
  or as \<^verbatim>\<open>NaN\<close>; when every cell is an integer the result is an \<^verbatim>\<open>int64\<close> column,
  otherwise a \<^verbatim>\<open>float64\<close> column in which the integers are floats and \<^verbatim>\<open>NaN\<close> is the
  missing value. A numeric column is returned as it is.
\<close>

definition number_of :: "'f lib \<Rightarrow> 'f cell \<Rightarrow> 'f number option" where
  "number_of L c =
     (case c of
        NA \<Rightarrow> None
      | Obj v \<Rightarrow> to_numeric L v
      | Num n \<Rightarrow> Some n
      | Time t \<Rightarrow> Some (I64 (word_of_int t)))"

definition is_int64 :: "'f number option \<Rightarrow> bool" where
  "is_int64 n = (case n of Some (I64 _) \<Rightarrow> True | _ \<Rightarrow> False)"

definition float_cell :: "'f lib \<Rightarrow> 'f \<Rightarrow> 'f cell" where
  "float_cell L x = (if np_isnan L x then NA else Num (F64 x))"

definition as_float :: "'f lib \<Rightarrow> 'f number option \<Rightarrow> 'f cell" where
  "as_float L n =
     (case n of
        None \<Rightarrow> NA
      | Some (I64 w) \<Rightarrow> float_cell L (np_float L (sint w))
      | Some (F64 x) \<Rightarrow> float_cell L x)"

definition to_numeric_column :: "'f lib \<Rightarrow> 'f cell list \<Rightarrow> 'f cell list" where
  "to_numeric_column L col =
     (let ns = map (number_of L) col
      in if list_all is_int64 ns
         then map (\<lambda>n. case n of Some (I64 w) \<Rightarrow> Num (I64 w) | _ \<Rightarrow> NA) ns
         else map (as_float L) ns)"

text \<open>\<^verbatim>\<open>df[name] = column\<close>, for the three columns that are assigned as a whole.\<close>

definition set_application_date :: "'f frame_row list \<Rightarrow> 'f cell list \<Rightarrow> 'f frame_row list" where
  "set_application_date df col = map (\<lambda>(r, v). r\<lparr>application_date := v\<rparr>) (zip df col)"

definition set_summa :: "'f frame_row list \<Rightarrow> 'f cell list \<Rightarrow> 'f frame_row list" where
  "set_summa df col = map (\<lambda>(r, v). r\<lparr>summa := v\<rparr>) (zip df col)"

definition set_loan_summa :: "'f frame_row list \<Rightarrow> 'f cell list \<Rightarrow> 'f frame_row list" where
  "set_loan_summa df col = map (\<lambda>(r, v). r\<lparr>loan_summa := v\<rparr>) (zip df col)"

text \<open>
  The three statements under \<^verbatim>\<open>if not by_explode\<close>. \<^verbatim>\<open>astype('Int64')\<close> leaves an
  identifier that is an integer or missing as it is.
\<close>

definition convert_application_date :: "'f lib \<Rightarrow> 'f frame_row list \<Rightarrow> error + 'f frame_row list" where
  "convert_application_date L df =
     (if \<not> str_accessor_ok (map application_date df) then Inl AttributeError
      else let tokens = map (\<lambda>r. str_split_first (application_date r)) df
           in Inr (set_application_date df (to_datetime L tokens)))"

text \<open>
  The four statements after the \<^verbatim>\<open>if\<close>: \<^verbatim>\<open>claim_date\<close> and \<^verbatim>\<open>contract_date\<close> with
  the format, \<^verbatim>\<open>summa\<close> and \<^verbatim>\<open>loan_summa\<close> to numbers.
\<close>

definition convert_columns :: "'f lib \<Rightarrow> 'f frame_row list \<Rightarrow> 'f frame_row list" where
  "convert_columns L df =
     (let df1 = map (\<lambda>r. r\<lparr>claim_date := to_datetime_format L (claim_date r)\<rparr>) df;
          df2 = map (\<lambda>r. r\<lparr>contract_date := to_datetime_format L (contract_date r)\<rparr>) df1;
          df3 = set_summa df2 (to_numeric_column L (map summa df2))
      in set_loan_summa df3 (to_numeric_column L (map loan_summa df3)))"

text \<open>A table without rows has no column: \<^verbatim>\<open>df['id']\<close> raises \<^verbatim>\<open>KeyError\<close>.\<close>

definition convert_data_types ::
  "'f lib \<Rightarrow> 'f frame_row list \<Rightarrow> bool \<Rightarrow> error + 'f frame_row list" where
  "convert_data_types L df by_explode =
     (if df = [] then Inl KeyError
      else case (if \<not> by_explode then convert_application_date L df else Inr df) of
             Inl e \<Rightarrow> Inl e
           | Inr df1 \<Rightarrow> Inr (convert_columns L df1))"

text \<open>The converted table as the aggregating functions read it.\<close>

definition time_of :: "'f cell \<Rightarrow> int option" where
  "time_of c = (case c of Time t \<Rightarrow> Some t | _ \<Rightarrow> None)"

definition num_of :: "'f cell \<Rightarrow> 'f number option" where
  "num_of c = (case c of Num n \<Rightarrow> Some n | _ \<Rightarrow> None)"

definition typed :: "'f frame_row \<Rightarrow> 'f typed_row" where
  "typed r = \<lparr> id' = id' r, application_date = time_of (application_date r),
               contract_id = contract_id r, bank = bank r,
               summa = num_of (summa r), loan_summa = num_of (loan_summa r),
               claim_date = time_of (claim_date r), claim_id = claim_id r,
               contract_date = time_of (contract_date r) \<rparr>"

section \<open>parse\_contracts\_by\_explode\<close>

text \<open>
  The second way to the contract table. The notebook calls it on a fresh copy of
  the input and overwrites the table it returns before reading it, so the model
  keeps only whether the call raises: the \<^verbatim>\<open>.str\<close> accessor on the application
  dates, and \<^verbatim>\<open>json.loads\<close>, which is called here without a \<^verbatim>\<open>try\<close> on every contracts
  text that is not missing or empty and that is left after sorting (here by the
  converted date) and dropping duplicates.
\<close>

definition explode_key ::
  "raw_record \<times> int option \<Rightarrow> (nat \<times> int) \<times> (nat \<times> int) \<times> (nat \<times> string)" where
  "explode_key p =
     (na_last (csv_id (fst p)) 0, na_last (snd p) 0, na_last (csv_contracts (fst p)) [])"

definition parse_contracts_by_explode :: "'f lib \<Rightarrow> raw_record list \<Rightarrow> error + unit" where
  "parse_contracts_by_explode L data =
     (let col = map (\<lambda>r. text_cell (csv_application_date r)) data
      in if \<not> str_accessor_ok col then Inl AttributeError
         else let dates = map time_of (to_datetime L (map str_split_first col));
                  kept = drop_duplicates (map fst (sort_key explode_key (zip data dates)))
              in if list_ex (\<lambda>r. case csv_contracts r of
                                    None \<Rightarrow> False
                                  | Some x \<Rightarrow> x \<noteq> [] \<and> json_loads L x = None) kept
                 then Inl JSONDecodeError
                 else Inr ())"

section \<open>Grouping\<close>

text \<open>
  \<^verbatim>\<open>df.groupby('id').apply(f, include_groups=False).reset_index(name=...)\<close>: one
  group per identifier present, in ascending order, rows with a missing identifier
  left out; each group keeps the table's row order. An exception of \<open>f\<close> ends the
  whole call. A table without a column has no \<^verbatim>\<open>id\<close> to group by (\<^verbatim>\<open>KeyError\<close>); with
  no identifier present \<^verbatim>\<open>apply\<close> returns an empty DataFrame, whose \<^verbatim>\<open>reset_index\<close>
  has no \<^verbatim>\<open>name\<close> argument (\<^verbatim>\<open>TypeError\<close>).
\<close>

definition group_keys :: "'f typed_row list \<Rightarrow> int list" where
  "group_keys df = sort (remdups (concat (map (\<lambda>r. case id' r of None \<Rightarrow> [] | Some k \<Rightarrow> [k]) df)))"

definition get_group :: "'f typed_row list \<Rightarrow> int \<Rightarrow> 'f typed_row list" where
  "get_group df k = filter (\<lambda>r. id' r = Some k) df"

fun collect :: "('k \<times> (error + 'a)) list \<Rightarrow> error + ('k \<times> 'a) list" where
  "collect [] = Inr []"
| "collect ((k, v) # rest) =
     (case v of
        Inl e \<Rightarrow> Inl e
      | Inr x \<Rightarrow> (case collect rest of Inl e \<Rightarrow> Inl e | Inr xs \<Rightarrow> Inr ((k, x) # xs)))"

definition groupby_apply ::
  "('f typed_row list \<Rightarrow> error + 'a) \<Rightarrow> 'f typed_row list \<Rightarrow> error + (int \<times> 'a) list" where
  "groupby_apply f df =
     (if df = [] then Inl KeyError
      else if group_keys df = [] then Inl TypeError
      else collect (map (\<lambda>k. (k, f (get_group df k))) (group_keys df)))"

definition iloc0 :: "'a list \<Rightarrow> error + 'a" where
  "iloc0 xs = (case xs of [] \<Rightarrow> Inl IndexError | x # _ \<Rightarrow> Inr x)"

section \<open>calculate\_tot\_claim\_cnt\_l180d\<close>

definition ns_per_day :: int where
  "ns_per_day = 86400000000000"

text \<open>
  \<^verbatim>\<open>app_date - timedelta(days=n)\<close>: \<^verbatim>\<open>NaT\<close> stays \<^verbatim>\<open>NaT\<close>, and a result that is not a
  Timestamp raises \<^verbatim>\<open>OutOfBoundsDatetime\<close>. A comparison with \<^verbatim>\<open>NaT\<close> on either side
  is false.
\<close>

definition minus_days :: "int option \<Rightarrow> int \<Rightarrow> error + int option" where
  "minus_days t n =
     (case t of
        None \<Rightarrow> Inr None
      | Some x \<Rightarrow> if in_bounds (x - n * ns_per_day) then Inr (Some (x - n * ns_per_day))
                  else Inl OutOfBoundsDatetime)"

definition ts_ge :: "int option \<Rightarrow> int option \<Rightarrow> bool" where
  "ts_ge a b = (case a of None \<Rightarrow> False | Some x \<Rightarrow> (case b of None \<Rightarrow> False | Some y \<Rightarrow> y \<le> x))"

definition ts_le :: "int option \<Rightarrow> int option \<Rightarrow> bool" where
  "ts_le a b = (case a of None \<Rightarrow> False | Some x \<Rightarrow> (case b of None \<Rightarrow> False | Some y \<Rightarrow> x \<le> y))"

definition claims_in_last_180_days :: "'f typed_row list \<Rightarrow> error + int" where
  "claims_in_last_180_days sub_df =
     (case iloc0 (map application_date sub_df) of
        Inl e \<Rightarrow> Inl e
      | Inr app_date \<Rightarrow>
          (case minus_days app_date 180 of
             Inl e \<Rightarrow> Inl e
           | Inr last_180_days \<Rightarrow>
               let valid_claims = filter (\<lambda>r. ts_ge (claim_date r) last_180_days
                                              \<and> ts_le (claim_date r) app_date) sub_df
               in Inr (if length valid_claims > 0 then int (length valid_claims) else - 3)))"

definition calculate_tot_claim_cnt_l180d :: "'f typed_row list \<Rightarrow> error + (int \<times> int) list" where
  "calculate_tot_claim_cnt_l180d df = groupby_apply claims_in_last_180_days df"

section \<open>calculate\_disb\_bank\_loan\_wo\_tbc\<close>

text \<open>
  What \<^verbatim>\<open>sum_loans_wo_tbc\<close> returns: the Python integers \<^verbatim>\<open>-1\<close> and \<^verbatim>\<open>-3\<close> of its
  \<^verbatim>\<open>return\<close> statements, or the numpy scalar of \<^verbatim>\<open>valid_loans['loan_summa'].sum()\<close>:
  an \<^verbatim>\<open>int64\<close>, added modulo \<open>2 ^ 64\<close>, when the column is an \<^verbatim>\<open>int64\<close> column, else a
  \<^verbatim>\<open>float64\<close>, the sum of the values that are not \<^verbatim>\<open>NaN\<close>.
\<close>

datatype 'f pynum = PyInt int | NpInt "64 word" | NpFloat 'f

definition is_float :: "'f pynum \<Rightarrow> bool" where
  "is_float v = (case v of NpFloat _ \<Rightarrow> True | _ \<Rightarrow> False)"

definition excluded_banks :: "'f cell list" where
  "excluded_banks = [Obj (JStr ''LIZ''), Obj (JStr ''LOM''), Obj (JStr ''MKO''),
                     Obj (JStr ''SUG''), NA]"

definition notna :: "'f lib \<Rightarrow> 'f cell \<Rightarrow> bool" where
  "notna L c =
     (case c of
        NA \<Rightarrow> False
      | Obj JNull \<Rightarrow> False
      | Obj (JFloat x) \<Rightarrow> \<not> np_isnan L x
      | Num (F64 x) \<Rightarrow> \<not> np_isnan L x
      | _ \<Rightarrow> True)"

definition isin :: "'f cell \<Rightarrow> 'f cell list \<Rightarrow> bool" where
  "isin c vs = (c \<in> set vs)"

definition ints :: "'f number option list \<Rightarrow> 64 word list" where
  "ints col = concat (map (\<lambda>n. case n of Some (I64 w) \<Rightarrow> [w] | _ \<Rightarrow> []) col)"

definition floats :: "'f lib \<Rightarrow> 'f number option list \<Rightarrow> 'f list" where
  "floats L col =
     concat (map (\<lambda>n. case n of
                         None \<Rightarrow> []
                       | Some (I64 w) \<Rightarrow> [np_float L (sint w)]
                       | Some (F64 x) \<Rightarrow> [x]) col)"

definition series_sum :: "'f lib \<Rightarrow> 'f number option list \<Rightarrow> 'f pynum" where
  "series_sum L col =
     (if list_all is_int64 col then NpInt (sum_list (ints col))
      else NpFloat (np_sum L (floats L col)))"

definition gt_zero :: "'f lib \<Rightarrow> 'f pynum \<Rightarrow> bool" where
  "gt_zero L v =
     (case v of PyInt i \<Rightarrow> 0 < i | NpInt w \<Rightarrow> 0 < sint w | NpFloat x \<Rightarrow> np_positive L x)"

definition sum_loans_wo_tbc :: "'f lib \<Rightarrow> 'f typed_row list \<Rightarrow> 'f pynum" where
  "sum_loans_wo_tbc L sub_df =
     (let valid_loans = filter (\<lambda>r. notna L (bank r) \<and> \<not> isin (bank r) excluded_banks
                                    \<and> contract_date r \<noteq> None) sub_df;
          total_sum = series_sum L (map loan_summa valid_loans)
      in if length valid_loans = 0 then PyInt (- 1)
         else if gt_zero L total_sum then total_sum else PyInt (- 3))"

text \<open>
  pandas builds the result column from the scalars the groups returned: a float
  column as soon as one of them is a float, an integer column when all are
  integers.
\<close>

definition to_float :: "'f lib \<Rightarrow> 'f pynum \<Rightarrow> 'f pynum" where
  "to_float L v =
     (case v of
        PyInt i \<Rightarrow> NpFloat (np_float L i)
      | NpInt w \<Rightarrow> NpFloat (np_float L (sint w))
      | NpFloat x \<Rightarrow> NpFloat x)"

definition result_column :: "'f lib \<Rightarrow> (int \<times> 'f pynum) list \<Rightarrow> (int \<times> 'f pynum) list" where
  "result_column L res =
     (if list_ex (\<lambda>(k, v). is_float v) res then map (\<lambda>(k, v). (k, to_float L v)) res else res)"

definition calculate_disb_bank_loan_wo_tbc ::
  "'f lib \<Rightarrow> 'f typed_row list \<Rightarrow> error + (int \<times> 'f pynum) list" where
  "calculate_disb_bank_loan_wo_tbc L df =
     (case groupby_apply (\<lambda>sub_df. Inr (sum_loans_wo_tbc L sub_df)) df of
        Inl e \<Rightarrow> Inl e
      | Inr res \<Rightarrow> Inr (result_column L res))"

section \<open>calculate\_day\_sinlastloan\<close>

text \<open>
  \<^verbatim>\<open>valid_loans['contract_date'].max()\<close> skips \<^verbatim>\<open>NaT\<close> and is \<^verbatim>\<open>NaT\<close> when nothing is
  left. A Timestamp minus \<^verbatim>\<open>NaT\<close> is \<^verbatim>\<open>NaT\<close>, whose \<^verbatim>\<open>.days\<close> is \<^verbatim>\<open>NaN\<close>; a Timestamp
  minus a Timestamp is a Timedelta, a signed 64-bit count of nanoseconds again
  (about 292 years either way), and raises \<^verbatim>\<open>OutOfBoundsDatetime\<close> beyond; the
  \<^verbatim>\<open>.days\<close> of a Timedelta is its number of whole days, rounded down.
\<close>

definition number_positive :: "'f lib \<Rightarrow> 'f number option \<Rightarrow> bool" where
  "number_positive L n =
     (case n of None \<Rightarrow> False | Some (I64 w) \<Rightarrow> 0 < sint w | Some (F64 x) \<Rightarrow> np_positive L x)"

definition nanmax :: "int option list \<Rightarrow> int option" where
  "nanmax xs = (case concat (map (\<lambda>x. case x of None \<Rightarrow> [] | Some v \<Rightarrow> [v]) xs) of
                  [] \<Rightarrow> None
                | v # vs \<Rightarrow> Some (fold max vs v))"

definition days_between :: "int option \<Rightarrow> int option \<Rightarrow> error + int option" where
  "days_between a b =
     (case a of
        None \<Rightarrow> Inr None
      | Some x \<Rightarrow>
          (case b of
             None \<Rightarrow> Inr None
           | Some y \<Rightarrow> if in_bounds (x - y) then Inr (Some ((x - y) div ns_per_day))
                       else Inl OutOfBoundsDatetime))"

definition days_since_last_loan :: "'f lib \<Rightarrow> 'f typed_row list \<Rightarrow> error + int" where
  "days_since_last_loan L sub_df =
     (let valid_loans = filter (\<lambda>r. number_positive L (summa r)) sub_df
      in if valid_loans = [] then Inr (- 1)
         else let last_loan_date = nanmax (map contract_date valid_loans)
              in case iloc0 (map application_date sub_df) of
                   Inl e \<Rightarrow> Inl e
                 | Inr app_date \<Rightarrow>
                     (case days_between app_date last_loan_date of
                        Inl e \<Rightarrow> Inl e
                      | Inr None \<Rightarrow> Inr (- 3)
                      | Inr (Some days_diff) \<Rightarrow> Inr (if days_diff > 0 then days_diff else - 3)))"

definition calculate_day_sinlastloan ::
  "'f lib \<Rightarrow> 'f typed_row list \<Rightarrow> error + (int \<times> int) list" where
  "calculate_day_sinlastloan L df = groupby_apply (days_since_last_loan L) df"

section \<open>The feature table\<close>

record 'f feature_row =
  f_id :: int
  f_application_date :: "int option"
  tot_claim_cnt_l180d :: int
  disb_bank_loan_wo_tbc :: "'f pynum"
  day_sinlastloan :: int

text \<open>
  \<^verbatim>\<open>data[['id', 'application_date']].drop_duplicates()\<close> keeps the first of equal
  pairs; the three \<^verbatim>\<open>merge(..., on='id')\<close> are inner joins.
\<close>

definition drop_duplicates_first :: "'a list \<Rightarrow> 'a list" where
  "drop_duplicates_first xs = rev (remdups (rev xs))"

definition application_dates :: "'f typed_row list \<Rightarrow> (int option \<times> int option) list" where
  "application_dates df = drop_duplicates_first (map (\<lambda>r. (id' r, application_date r)) df)"

definition merge_features ::
  "(int \<times> int) list \<Rightarrow> (int \<times> 'f pynum) list \<Rightarrow> (int \<times> int) list
     \<Rightarrow> (int option \<times> int option) list \<Rightarrow> 'f feature_row list" where
  "merge_features tot disb day dates =
     [\<lparr> f_id = k, f_application_date = a, tot_claim_cnt_l180d = t,
        disb_bank_loan_wo_tbc = s, day_sinlastloan = d \<rparr>.
        (k, t) \<leftarrow> tot, (k1, s) \<leftarrow> disb, k1 = k, (k2, d) \<leftarrow> day, k2 = k,
        (i, a) \<leftarrow> dates, i = Some k]"

definition features_df :: "'f lib \<Rightarrow> 'f typed_row list \<Rightarrow> error + 'f feature_row list" where
  "features_df L data =
     (case calculate_tot_claim_cnt_l180d data of
        Inl e \<Rightarrow> Inl e
      | Inr tot \<Rightarrow>
          (case calculate_disb_bank_loan_wo_tbc L data of
             Inl e \<Rightarrow> Inl e
           | Inr disb \<Rightarrow>
               (case calculate_day_sinlastloan L data of
                  Inl e \<Rightarrow> Inl e
                | Inr day \<Rightarrow> Inr (merge_features tot disb day (application_dates data)))))"

text \<open>
  The cells of the notebook, run in order; an exception in one of them ends the run.
  \<^item> \<^verbatim>\<open>data = parse_contracts(data)\<close> and
    \<^verbatim>\<open>data = convert_data_types(data, by_explode=False)\<close>;
  \<^item> \<^verbatim>\<open>df = parse_contracts_by_explode(data=df)\<close> on what \<^verbatim>\<open>pd.read_csv\<close> returns
    again, then \<^verbatim>\<open>df = convert_data_types(df=data, by_explode=True)\<close>, which converts
    \<^verbatim>\<open>data\<close> a second time;
  \<^item> the cell that computes the features from \<^verbatim>\<open>data\<close> and writes
    \<^verbatim>\<open>contract_features.csv\<close>.
\<close>

definition notebook :: "'f lib \<Rightarrow> raw_record list \<Rightarrow> error + 'f feature_row list" where
  "notebook L csv =
     (case parse_contracts L csv of
        Inl e \<Rightarrow> Inl e
      | Inr data0 \<Rightarrow>
          (case convert_data_types L data0 False of
             Inl e \<Rightarrow> Inl e
           | Inr data1 \<Rightarrow>
               (case parse_contracts_by_explode L csv of
                  Inl e \<Rightarrow> Inl e
                | Inr _ \<Rightarrow>
                    (case convert_data_types L data1 True of
                       Inl e \<Rightarrow> Inl e
                     | Inr data \<Rightarrow> features_df L (map typed data)))))"

section \<open>The properties, in the words of the specification\<close>

text \<open>
  The order of the Normalizer: ascending by identifier, then application date, then
  contracts text, a missing value after every present one.
\<close>

definition missing_last_less :: "'a::linorder option \<Rightarrow> 'a option \<Rightarrow> bool" where
  "missing_last_less a b =
     (case a of None \<Rightarrow> False | Some x \<Rightarrow> (case b of None \<Rightarrow> True | Some y \<Rightarrow> x < y))"

definition record_order :: "raw_record \<Rightarrow> raw_record \<Rightarrow> bool" where
  "record_order r s =
     (missing_last_less (csv_id r) (csv_id s)
      \<or> (csv_id r = csv_id s
          \<and> (missing_last_less (csv_application_date r) (csv_application_date s)
              \<or> (csv_application_date r = csv_application_date s
                  \<and> (csv_contracts r = csv_contracts s
                      \<or> missing_last_less (csv_contracts r) (csv_contracts s))))))"

text \<open>
  Position \<open>i\<close> of a list of records is the last one with its contracts text.
\<close>

definition last_occurrence :: "raw_record list \<Rightarrow> nat \<Rightarrow> bool" where
  "last_occurrence xs i =
     (\<not> list_ex (\<lambda>j. csv_contracts (xs ! j) = csv_contracts (xs ! i)) [Suc i..<length xs])"

text \<open>
  The records whose contracts text \<^verbatim>\<open>parse_contracts\<close> skips: missing, empty, or not
  JSON; and those with no text at all.
\<close>

definition no_payload :: "'f lib \<Rightarrow> raw_record \<Rightarrow> bool" where
  "no_payload L r =
     (case csv_contracts r of None \<Rightarrow> True | Some s \<Rightarrow> s = [] \<or> json_loads L s = None)"

definition null_or_empty :: "raw_record \<Rightarrow> bool" where
  "null_or_empty r = (csv_contracts r = None \<or> csv_contracts r = Some [])"

text \<open>
  The groups of a table: its identifiers in ascending order, and the rows of one
  identifier. The application date of a group is the one of its first row.
\<close>

definition identifiers :: "'f typed_row list \<Rightarrow> int list" where
  "identifiers df = sorted_list_of_set (Option.these (set (map id' df)))"

definition rows_of :: "'f typed_row list \<Rightarrow> int \<Rightarrow> 'f typed_row list" where
  "rows_of df k = [r \<leftarrow> df. id' r = Some k]"

definition group_application_date :: "'f typed_row list \<Rightarrow> int option" where
  "group_application_date g = (case g of [] \<Rightarrow> None | r # _ \<Rightarrow> application_date r)"

text \<open>
  The number of rows whose claim date lies in the window [A - 180 days, A], and the
  feature made of it. The start of the window has to be a Timestamp.
\<close>

definition window_count :: "int option \<Rightarrow> 'f typed_row list \<Rightarrow> nat" where
  "window_count A g =
     (case A of
        None \<Rightarrow> 0
      | Some a \<Rightarrow> length (filter (\<lambda>r. case claim_date r of
                                         None \<Rightarrow> False
                                       | Some c \<Rightarrow> a - 180 * ns_per_day \<le> c \<and> c \<le> a) g))"

definition spec_tot_claim_cnt_l180d :: "'f typed_row list \<Rightarrow> int" where
  "spec_tot_claim_cnt_l180d g =
     (let n = window_count (group_application_date g) g in if 1 \<le> n then int n else - 3)"

definition window_fits :: "'f typed_row list \<Rightarrow> bool" where
  "window_fits g =
     (case group_application_date g of
        None \<Rightarrow> True
      | Some a \<Rightarrow> - 9223372036854775807 \<le> a - 180 * ns_per_day
                  \<and> a - 180 * ns_per_day \<le> 9223372036854775807)"

text \<open>
  The rows with a bank that is present and not one of LIZ, LOM, MKO, SUG, and with a
  contract date; -1 with no such row, else the sum of their \<^verbatim>\<open>loan_summa\<close>, -3 in
  place of a sum that is not positive. The sum is the sum of integers when all
  are integers, and else the sum of the floats as pandas adds them, a missing value
  adding nothing.
\<close>

definition missing :: "'f lib \<Rightarrow> 'f cell \<Rightarrow> bool" where
  "missing L c =
     (case c of
        NA \<Rightarrow> True
      | Obj v \<Rightarrow> (case v of JNull \<Rightarrow> True | JFloat x \<Rightarrow> np_isnan L x | _ \<Rightarrow> False)
      | Num n \<Rightarrow> (case n of I64 _ \<Rightarrow> False | F64 x \<Rightarrow> np_isnan L x)
      | Time _ \<Rightarrow> False)"

definition surviving_loans :: "'f lib \<Rightarrow> 'f typed_row list \<Rightarrow> 'f typed_row list" where
  "surviving_loans L g =
     filter (\<lambda>r. \<not> missing L (bank r)
                 \<and> bank r \<notin> {Obj (JStr ''LIZ''), Obj (JStr ''LOM''), Obj (JStr ''MKO''),
                              Obj (JStr ''SUG'')}
                 \<and> contract_date r \<noteq> None) g"

definition integer_sum :: "'f typed_row list \<Rightarrow> int" where
  "integer_sum g = (\<Sum>r\<leftarrow>g. case loan_summa r of Some (I64 w) \<Rightarrow> sint w | _ \<Rightarrow> 0)"

definition all_integers :: "'f typed_row list \<Rightarrow> bool" where
  "all_integers g = list_all (\<lambda>r. case loan_summa r of Some (I64 _) \<Rightarrow> True | _ \<Rightarrow> False) g"

definition float_values :: "'f lib \<Rightarrow> 'f typed_row list \<Rightarrow> 'f list" where
  "float_values L g =
     concat (map (\<lambda>r. case loan_summa r of
                         None \<Rightarrow> []
                       | Some (I64 w) \<Rightarrow> [np_float L (sint w)]
                       | Some (F64 x) \<Rightarrow> [x]) g)"

definition spec_disb_bank_loan_wo_tbc :: "'f lib \<Rightarrow> 'f typed_row list \<Rightarrow> 'f pynum" where
  "spec_disb_bank_loan_wo_tbc L g =
     (if surviving_loans L g = [] then PyInt (- 1)
      else if all_integers (surviving_loans L g)
           then (if integer_sum (surviving_loans L g) \<le> 0 then PyInt (- 3)
                 else NpInt (word_of_int (integer_sum (surviving_loans L g))))
           else (if np_positive L (np_sum L (float_values L (surviving_loans L g)))
                 then NpFloat (np_sum L (float_values L (surviving_loans L g)))
                 else PyInt (- 3)))"

text \<open>The sum of integers is the one of the code when it is a signed 64-bit integer.\<close>

definition integer_sum_fits :: "'f lib \<Rightarrow> 'f typed_row list \<Rightarrow> bool" where
  "integer_sum_fits L g =
     (- 9223372036854775808 \<le> integer_sum (surviving_loans L g)
      \<and> integer_sum (surviving_loans L g) \<le> 9223372036854775807)"

text \<open>
  The column of a table: the value of every identifier, all of them as floats as
  soon as one of them is a float.
\<close>

definition number_as_float :: "'f lib \<Rightarrow> 'f pynum \<Rightarrow> 'f" where
  "number_as_float L v =
     (case v of PyInt i \<Rightarrow> np_float L i | NpInt w \<Rightarrow> np_float L (sint w) | NpFloat x \<Rightarrow> x)"

definition spec_disb_column :: "'f lib \<Rightarrow> 'f typed_row list \<Rightarrow> (int \<times> 'f pynum) list" where
  "spec_disb_column L df =
     (let vs = map (\<lambda>k. (k, spec_disb_bank_loan_wo_tbc L (rows_of df k))) (identifiers df)
      in if list_ex (\<lambda>(k, v). case v of NpFloat _ \<Rightarrow> True | _ \<Rightarrow> False) vs
         then map (\<lambda>(k, v). (k, NpFloat (number_as_float L v))) vs
         else vs)"

text \<open>
  The rows whose \<^verbatim>\<open>summa\<close> is present and strictly positive, and their contract
  dates; -1 with no such row, else the whole days from the latest of these dates to
  the application date, -3 in place of a number of days that is not positive and
  where a date is missing. The difference of the two dates has to be a Timedelta.
\<close>

definition positive_summa :: "'f lib \<Rightarrow> 'f typed_row list \<Rightarrow> 'f typed_row list" where
  "positive_summa L g =
     filter (\<lambda>r. case summa r of
                   None \<Rightarrow> False
                 | Some (I64 w) \<Rightarrow> 0 < sint w
                 | Some (F64 x) \<Rightarrow> np_positive L x) g"

definition loan_dates :: "'f lib \<Rightarrow> 'f typed_row list \<Rightarrow> int list" where
  "loan_dates L g =
     concat (map (\<lambda>r. case contract_date r of None \<Rightarrow> [] | Some d \<Rightarrow> [d]) (positive_summa L g))"

definition spec_day_sinlastloan :: "'f lib \<Rightarrow> 'f typed_row list \<Rightarrow> int" where
  "spec_day_sinlastloan L g =
     (if positive_summa L g = [] then - 1
      else case group_application_date g of
             None \<Rightarrow> - 3
           | Some a \<Rightarrow>
               if loan_dates L g = [] then - 3
               else let d = (a - Max (set (loan_dates L g))) div ns_per_day
                    in if d \<le> 0 then - 3 else d)"

definition difference_fits :: "'f lib \<Rightarrow> 'f typed_row list \<Rightarrow> bool" where
  "difference_fits L g =
     (case group_application_date g of
        None \<Rightarrow> True
      | Some a \<Rightarrow>
          loan_dates L g = []
          \<or> (- 9223372036854775807 \<le> a - Max (set (loan_dates L g))
              \<and> a - Max (set (loan_dates L g)) \<le> 9223372036854775807))"

text \<open>A table after \<^verbatim>\<open>convert_data_types\<close>: dates or \<^verbatim>\<open>NaT\<close>.\<close>

definition is_time :: "'f cell \<Rightarrow> bool" where
  "is_time c = (case c of NA \<Rightarrow> True | Time _ \<Rightarrow> True | _ \<Rightarrow> False)"

section \<open>The scenarios\<close>

text \<open>Midnight of a calendar day as a Timestamp (days since 1970-01-01, proleptic Gregorian).\<close>

definition days_from_civil :: "int \<Rightarrow> int \<Rightarrow> int \<Rightarrow> int" where
  "days_from_civil y m d =
     (let y1 = (if m \<le> 2 then y - 1 else y);
          era = y1 div 400;
          yoe = y1 - era * 400;
          doy = (153 * (if m > 2 then m - 3 else m + 9) + 2) div 5 + d - 1;
          doe = yoe * 365 + yoe div 4 - yoe div 100 + doy
      in era * 146097 + doe - 719468)"

definition midnight :: "int \<Rightarrow> int \<Rightarrow> int \<Rightarrow> int" where
  "midnight y m d = days_from_civil y m d * ns_per_day"

definition scenario_A_text :: string where
  \<open>scenario_A_text = ''[{"bank":"ALPHA","loan_summa":"1000","contract_date":"01.01.2024","claim_date":"01.01.2024"}]''\<close>

definition scenario_A_json :: "'f json" where
  "scenario_A_json = JArr [JObj [(''bank'', JStr ''ALPHA''), (''loan_summa'', JStr ''1000''),
                                 (''contract_date'', JStr ''01.01.2024''),
                                 (''claim_date'', JStr ''01.01.2024'')]]"

definition scenario_A :: "raw_record list" where
  "scenario_A = [\<lparr> csv_id = Some 1, csv_application_date = Some ''2024-03-01'',
                   csv_contracts = Some scenario_A_text \<rparr>]"

definition scenario_B_text :: string where
  \<open>scenario_B_text = ''[{"bank":"MKO","loan_summa":"500","contract_date":"01.01.2024"}]''\<close>

definition scenario_B_json :: "'f json" where
  "scenario_B_json = JArr [JObj [(''bank'', JStr ''MKO''), (''loan_summa'', JStr ''500''),
                                 (''contract_date'', JStr ''01.01.2024'')]]"

definition scenario_B :: "raw_record list" where
  "scenario_B = [\<lparr> csv_id = Some 2, csv_application_date = Some ''2024-03-01'',
                   csv_contracts = Some scenario_B_text \<rparr>]"

definition scenario_C :: "raw_record list" where
  "scenario_C = [\<lparr> csv_id = Some 3, csv_application_date = Some ''2024-03-01'',
                   csv_contracts = None \<rparr>]"

text \<open>Scenario D: the contracts text of scenario A twice, with two application dates.\<close>

definition scenario_D :: "raw_record list" where
  "scenario_D = [\<lparr> csv_id = Some 4, csv_application_date = Some ''2024-02-01'',
                   csv_contracts = Some scenario_A_text \<rparr>,
                 \<lparr> csv_id = Some 4, csv_application_date = Some ''2024-03-01'',
                   csv_contracts = Some scenario_A_text \<rparr>]"

definition scenario_D_row :: "'f frame_row" where
  "scenario_D_row = \<lparr> id' = Some 4, application_date = Obj (JStr ''2024-03-01''),
                       contract_id = NA, bank = Obj (JStr ''ALPHA''), summa = NA,
                       loan_summa = Obj (JStr ''1000''),
                       claim_date = Obj (JStr ''01.01.2024''), claim_id = NA,
                       contract_date = Obj (JStr ''01.01.2024'') \<rparr>"

text \<open>The table of scenario A before and after \<^verbatim>\<open>convert_data_types\<close>.\<close>

definition scenario_A_frame :: "'f frame_row list" where
  "scenario_A_frame = [\<lparr> id' = Some 1, application_date = Obj (JStr ''2024-03-01''),
                         contract_id = NA, bank = Obj (JStr ''ALPHA''), summa = NA,
                         loan_summa = Obj (JStr ''1000''),
                         claim_date = Obj (JStr ''01.01.2024''), claim_id = NA,
                         contract_date = Obj (JStr ''01.01.2024'') \<rparr>]"

definition scenario_A_converted :: "'f frame_row list" where
  "scenario_A_converted = [\<lparr> id' = Some 1, application_date = Time (midnight 2024 3 1),
                             contract_id = NA, bank = Obj (JStr ''ALPHA''), summa = NA,
                             loan_summa = Num (I64 1000),
                             claim_date = Time (midnight 2024 1 1), claim_id = NA,
                             contract_date = Time (midnight 2024 1 1) \<rparr>]"

text \<open>A record whose contracts text is the JSON number 5.\<close>

definition scenario_number :: "raw_record list" where
  "scenario_number = [\<lparr> csv_id = Some 7, csv_application_date = Some ''2024-03-01'',
                        csv_contracts = Some ''5'' \<rparr>]"

text \<open>A record whose contracts text is not JSON.\<close>

definition scenario_invalid :: "raw_record list" where
  "scenario_invalid = [\<lparr> csv_id = Some 7, csv_application_date = Some ''2024-03-01'',
                         csv_contracts = Some ''abc'' \<rparr>]"

definition scenario_E_text :: string where
  \<open>scenario_E_text = ''[{"summa":"750","contract_date":"01.01.2024"}]''\<close>

definition scenario_E_json :: "'f json" where
  "scenario_E_json = JArr [JObj [(''summa'', JStr ''750''),
                                 (''contract_date'', JStr ''01.01.2024'')]]"

definition scenario_E :: "raw_record list" where
  "scenario_E = [\<lparr> csv_id = Some 5, csv_application_date = Some ''2024-02-01'',
                   csv_contracts = Some scenario_E_text \<rparr>]"

text \<open>
  Tables as the aggregators read them: the one of scenario A; the one of scenario
  E; the loan of scenario E with no contract date; with a contract date in 1700
  and an application in 2024; an application on 1677-12-01; and two loans of
  \<open>2 ^ 62\<close> each in an integer column.
\<close>

definition loan_row ::
  "int \<Rightarrow> int option \<Rightarrow> 'f number option \<Rightarrow> 'f number option \<Rightarrow> int option \<Rightarrow> 'f typed_row" where
  "loan_row k app s l d =
     \<lparr> id' = Some k, application_date = app, contract_id = NA, bank = Obj (JStr ''ALPHA''),
       summa = s, loan_summa = l, claim_date = None, claim_id = NA, contract_date = d \<rparr>"

definition scenario_A_table :: "'f typed_row list" where
  "scenario_A_table = [\<lparr> id' = Some 1, application_date = Some (midnight 2024 3 1),
                         contract_id = NA, bank = Obj (JStr ''ALPHA''), summa = None,
                         loan_summa = Some (I64 1000),
                         claim_date = Some (midnight 2024 1 1), claim_id = NA,
                         contract_date = Some (midnight 2024 1 1) \<rparr>]"

definition scenario_E_group :: "'f typed_row list" where
  "scenario_E_group = [\<lparr> id' = Some 5, application_date = Some (midnight 2024 2 1),
                         contract_id = NA, bank = NA, summa = Some (I64 750), loan_summa = None,
                         claim_date = None, claim_id = NA,
                         contract_date = Some (midnight 2024 1 1) \<rparr>]"

definition undated_group :: "'f typed_row list" where
  "undated_group = [\<lparr> id' = Some 6, application_date = Some (midnight 2024 2 1),
                      contract_id = NA, bank = NA, summa = Some (I64 750), loan_summa = None,
                      claim_date = None, claim_id = NA, contract_date = None \<rparr>]"

definition old_loan_group :: "'f typed_row list" where
  "old_loan_group = [loan_row 8 (Some (midnight 2024 1 1)) (Some (I64 750)) None
                       (Some (midnight 1700 1 1))]"

definition early_group :: "'f typed_row list" where
  "early_group = [loan_row 9 (Some (midnight 1677 12 1)) None None None]"

definition overflow_group :: "'f typed_row list" where
  "overflow_group = [loan_row 10 (Some (midnight 2024 3 1)) None
                       (Some (I64 4611686018427387904)) (Some (midnight 2024 1 1)),
                     loan_row 10 (Some (midnight 2024 3 1)) None
                       (Some (I64 4611686018427387904)) (Some (midnight 2024 1 1))]"

text \<open>A table of two applications: the rows of scenario E, then those of scenario A.\<close>

definition two_applications :: "'f typed_row list" where
  "two_applications = scenario_E_group @ scenario_A_table"

text \<open>
  What Python and pandas return on the texts of the scenarios; \<open>scenario_lib\<close> is a
  library that knows these texts and no other, with the real numbers for floats.
\<close>

definition pandas_on_scenarios :: "'f lib \<Rightarrow> bool" where
  "pandas_on_scenarios L =
     (json_loads L scenario_A_text = Some scenario_A_json
      \<and> json_loads L scenario_B_text = Some scenario_B_json
      \<and> json_loads L scenario_E_text = Some scenario_E_json
      \<and> json_loads L ''5'' = Some (JInt 5)
      \<and> json_loads L ''abc'' = None
      \<and> to_datetime_guess L ''2024-03-01'' ''2024-03-01'' = Some (midnight 2024 3 1)
      \<and> to_datetime_guess L ''2024-02-01'' ''2024-02-01'' = Some (midnight 2024 2 1)
      \<and> to_datetime_dmy L (JStr ''01.01.2024'') = Some (midnight 2024 1 1)
      \<and> to_numeric L (JStr ''1000'') = Some (I64 1000)
      \<and> to_numeric L (JStr ''500'') = Some (I64 500)
      \<and> to_numeric L (JStr ''750'') = Some (I64 750))"

definition scenario_lib :: "real lib" where
  "scenario_lib =
     \<lparr> json_loads = map_of [(scenario_A_text, scenario_A_json),
                             (scenario_B_text, scenario_B_json),
                             (scenario_E_text, scenario_E_json), (''5'', JInt 5)],
       to_datetime_guess = (\<lambda>g. map_of [(''2024-03-01'', midnight 2024 3 1),
                                         (''2024-02-01'', midnight 2024 2 1)]),
       to_datetime_dmy = (\<lambda>v. case v of
                                  JStr s \<Rightarrow> map_of [(''01.01.2024'', midnight 2024 1 1)] s
                                | _ \<Rightarrow> None),
       to_numeric = (\<lambda>v. case v of
                             JStr s \<Rightarrow> map_of [(''1000'', I64 1000), (''500'', I64 500),
                                               (''750'', I64 750)] s
                           | JInt i \<Rightarrow> Some (I64 (word_of_int i))
                           | JFloat x \<Rightarrow> Some (F64 x)
                           | _ \<Rightarrow> None),
       np_isnan = (\<lambda>x. False),
       np_sum = sum_list,
       np_positive = (\<lambda>x. 0 < x),
       np_float = real_of_int \<rparr>"

section \<open>Facts about parse\_contracts\<close>

lemma sort_values_set: "set (sort_values xs) = set xs"
  by (simp add: sort_values_def)

lemma sort_values_sorted: "sorted (map sort_key_of (sort_values xs))"
  by (simp add: sort_values_def)

lemma drop_duplicates_subset: "set (drop_duplicates xs) \<subseteq> set xs"
  by (induction xs) auto

lemma upt_Suc_shift: "[Suc i..<Suc n] = map Suc [i..<n]"
  by (simp add: map_Suc_upt del: upt_Suc)

lemma list_ex_map: "list_ex P (map f xs) = list_ex (\<lambda>x. P (f x)) xs"
  by (induction xs) auto

lemma last_occurrence_0:
  "last_occurrence (x # xs) 0 \<longleftrightarrow> csv_contracts x \<notin> set (map csv_contracts xs)"
proof -
  have "last_occurrence (x # xs) 0
        \<longleftrightarrow> \<not> list_ex (\<lambda>j. csv_contracts ((x # xs) ! j) = csv_contracts x) (map Suc [0..<length xs])"
    unfolding last_occurrence_def by (simp add: upt_Suc_shift del: upt_Suc)
  also have "\<dots> \<longleftrightarrow> \<not> (\<exists>i<length xs. csv_contracts (xs ! i) = csv_contracts x)"
    by (simp only: list_ex_map nth_Cons_Suc) (auto simp add: list_ex_iff)
  also have "\<dots> \<longleftrightarrow> csv_contracts x \<notin> set (map csv_contracts xs)"
    by (metis (no_types, lifting) in_set_conv_nth length_map nth_map)
  finally show ?thesis .
qed

lemma last_occurrence_Suc:
  "last_occurrence (x # xs) (Suc i) \<longleftrightarrow> last_occurrence xs i"
proof -
  have "last_occurrence (x # xs) (Suc i)
        \<longleftrightarrow> \<not> list_ex (\<lambda>j. csv_contracts ((x # xs) ! j) = csv_contracts (xs ! i))
                  (map Suc [Suc i..<length xs])"
    unfolding last_occurrence_def by (simp add: upt_Suc_shift del: upt_Suc)
  also have "\<dots> \<longleftrightarrow> last_occurrence xs i"
    unfolding last_occurrence_def by (simp only: list_ex_map nth_Cons_Suc)
  finally show ?thesis .
qed

lemma drop_duplicates_nth:
  "drop_duplicates xs = map (\<lambda>i. xs ! i) (filter (last_occurrence xs) [0..<length xs])"
proof (induction xs)
  case Nil
  then show ?case by simp
next
  case (Cons x xs)
  have upt: "[0..<length (x # xs)] = 0 # map Suc [0..<length xs]"
    by (simp add: upt_conv_Cons map_Suc_upt del: upt_Suc)
  have tl: "map (\<lambda>i. (x # xs) ! i) (filter (last_occurrence (x # xs)) (map Suc [0..<length xs]))
            = drop_duplicates xs"
    by (simp add: filter_map comp_def last_occurrence_Suc Cons.IH)
  show ?case
    unfolding upt using tl
    by (simp add: last_occurrence_0 del: upt_Suc)
qed

lemma sort_values_mset: "mset (sort_values xs) = mset xs"
  by (simp add: sort_values_def)

lemma make_row_id: "make_row i d c = Inr row \<Longrightarrow> id' row = i"
  by (auto simp add: make_row_def split: json.splits)

lemma contract_rows_id:
  "contract_rows i d cs = Inr rs \<Longrightarrow> row \<in> set rs \<Longrightarrow> id' row = i"
proof (induction cs arbitrary: rs)
  case Nil
  then show ?case by simp
next
  case (Cons c cs)
  then show ?case
    by (auto split: sum.splits dest: make_row_id)
qed

lemma record_rows_id:
  "record_rows L r = Inr rs \<Longrightarrow> row \<in> set rs \<Longrightarrow> id' row = csv_id r"
  by (auto simp add: record_rows_def split: option.splits if_splits sum.splits
      dest: contract_rows_id)

lemma no_payload_rows: "no_payload L r \<Longrightarrow> record_rows L r = Inr []"
  by (auto simp add: no_payload_def record_rows_def split: option.splits)

lemma parse_loop_rows:
  "parse_loop L xs = Inr rows \<Longrightarrow> row \<in> set rows
   \<Longrightarrow> \<exists>r\<in>set xs. \<exists>rs. record_rows L r = Inr rs \<and> row \<in> set rs"
proof (induction xs arbitrary: rows)
  case Nil
  then show ?case by simp
next
  case (Cons x xs)
  then show ?case
    by (auto split: sum.splits)
qed

lemma parse_loop_skip: "record_rows L r = Inr [] \<Longrightarrow> parse_loop L (r # rs) = parse_loop L rs"
  by (simp split: sum.splits)

lemma parse_loop_filter:
  "parse_loop L xs = parse_loop L (filter (\<lambda>r. \<not> no_payload L r) xs)"
proof (induction xs)
  case Nil
  then show ?case by simp
next
  case (Cons x xs)
  show ?case
  proof (cases "no_payload L x")
    case True
    then have "parse_loop L (x # xs) = parse_loop L xs"
      by (intro parse_loop_skip no_payload_rows)
    with True show ?thesis using Cons.IH by simp
  next
    case False
    then show ?thesis using Cons.IH by (simp cong: sum.case_cong)
  qed
qed

lemma parse_loop_concat:
  "parse_loop L xs = Inr rows
   \<Longrightarrow> \<exists>rss. list_all2 (\<lambda>r rs. record_rows L r = Inr rs) xs rss \<and> rows = concat rss"
proof (induction xs arbitrary: rows)
  case Nil
  then show ?case by simp
next
  case (Cons x xs)
  from Cons.prems obtain a b where ab: "record_rows L x = Inr a" "parse_loop L xs = Inr b"
    "rows = a @ b"
    by (auto split: sum.splits)
  from Cons.IH[OF ab(2)] obtain rss where
    "list_all2 (\<lambda>r rs. record_rows L r = Inr rs) xs rss" "b = concat rss" by blast
  with ab have "list_all2 (\<lambda>r rs. record_rows L r = Inr rs) (x # xs) (a # rss)
                \<and> rows = concat (a # rss)" by simp
  then show ?case by blast
qed

lemma parse_loop_single: "parse_loop L [r] = record_rows L r"
  by (simp split: sum.splits)

lemma same_text_later_date:
  assumes "d1 < d2"
  shows "parse_contracts L [\<lparr>csv_id = i, csv_application_date = Some d1, csv_contracts = c\<rparr>,
                            \<lparr>csv_id = i, csv_application_date = Some d2, csv_contracts = c\<rparr>]
         = record_rows L \<lparr>csv_id = i, csv_application_date = Some d2, csv_contracts = c\<rparr>"
    and "parse_contracts L [\<lparr>csv_id = i, csv_application_date = Some d2, csv_contracts = c\<rparr>,
                            \<lparr>csv_id = i, csv_application_date = Some d1, csv_contracts = c\<rparr>]
         = record_rows L \<lparr>csv_id = i, csv_application_date = Some d2, csv_contracts = c\<rparr>"
  using assms
  by (auto simp add: parse_contracts_def sort_values_def sort_key_of_def na_last_def
      parse_loop_single simp del: parse_loop.simps split: option.splits)

lemma key_le_order: "sort_key_of r \<le> sort_key_of s \<longleftrightarrow> record_order r s"
  by (cases "csv_id r"; cases "csv_id s"; cases "csv_application_date r";
      cases "csv_application_date s"; cases "csv_contracts r"; cases "csv_contracts s")
    (auto simp add: sort_key_of_def na_last_def record_order_def missing_last_less_def)

lemma sort_values_order: "sorted_wrt record_order (sort_values xs)"
proof -
  have "sorted (map sort_key_of (sort_values xs))"
    by (rule sort_values_sorted)
  then show ?thesis
    by (simp add: sorted_map key_le_order)
qed

section \<open>Facts about convert\_data\_types\<close>

lemma stamp_is_time: "is_time (stamp t)"
  by (simp add: stamp_def is_time_def split: option.splits)

lemma to_datetime_format_is_time: "is_time (to_datetime_format L c)"
  by (cases c) (simp_all add: to_datetime_format_def stamp_is_time, simp_all add: is_time_def)

lemma to_datetime_format_fixed: "is_time c \<Longrightarrow> to_datetime_format L c = c"
  by (simp add: to_datetime_format_def is_time_def split: cell.splits)

lemma to_datetime_format_idem:
  "to_datetime_format L (to_datetime_format L c) = to_datetime_format L c"
  by (simp add: to_datetime_format_fixed to_datetime_format_is_time)

lemma to_datetime_length: "length (to_datetime L col) = length col"
  by (simp add: to_datetime_def)

lemma stamp_no_text: "\<not> is_text (stamp t)"
  by (simp add: stamp_def is_text_def split: option.splits)

lemma to_datetime_cell_no_text:
  "\<not> is_text (case c of
                 Obj (JStr s) \<Rightarrow> (case g of None \<Rightarrow> NA | Some x \<Rightarrow> stamp (f x s))
               | Time t \<Rightarrow> Time t
               | _ \<Rightarrow> NA)"
  by (simp add: stamp_no_text split: cell.splits json.splits option.splits)
    (simp add: is_text_def)

lemma to_datetime_no_text: "\<not> list_ex is_text (to_datetime L col)"
  unfolding to_datetime_def list_ex_iff
  using to_datetime_cell_no_text[where g = "first_text col" and f = "to_datetime_guess L"]
  by auto

lemma to_numeric_column_length: "length (to_numeric_column L col) = length col"
  by (simp add: to_numeric_column_def Let_def)

lemma int_cell_fixed:
  "is_int64 n \<Longrightarrow> number_of L (case n of Some (I64 w) \<Rightarrow> Num (I64 w) | _ \<Rightarrow> NA) = n"
  by (simp add: is_int64_def number_of_def split: option.splits number.splits)

lemma as_float_not_int: "\<not> is_int64 (number_of L (as_float L n))"
  by (simp add: as_float_def float_cell_def number_of_def is_int64_def
      split: option.splits number.splits)

lemma as_float_fixed: "as_float L (number_of L (as_float L n)) = as_float L n"
  by (simp add: as_float_def float_cell_def number_of_def split: option.splits number.splits)

lemma to_numeric_column_idem:
  "to_numeric_column L (to_numeric_column L col) = to_numeric_column L col"
proof (cases "list_all is_int64 (map (number_of L) col)")
  case True
  then have res: "to_numeric_column L col
      = map (\<lambda>n. case n of Some (I64 w) \<Rightarrow> Num (I64 w) | _ \<Rightarrow> NA) (map (number_of L) col)"
    by (simp add: to_numeric_column_def)
  have again: "map (number_of L) (to_numeric_column L col) = map (number_of L) col"
    unfolding res using True
    by (induction col) (simp_all add: int_cell_fixed)
  show ?thesis
    unfolding to_numeric_column_def[of L "to_numeric_column L col"] again
    using True by (simp add: to_numeric_column_def)
next
  case False
  then have res: "to_numeric_column L col = map (as_float L) (map (number_of L) col)"
    by (simp add: to_numeric_column_def)
  from False have ne: "col \<noteq> []" by auto
  have notint: "\<not> list_all is_int64 (map (number_of L) (to_numeric_column L col))"
    unfolding res using ne as_float_not_int
    by (cases col) (auto simp add: list_all_iff)
  have "map (as_float L) (map (number_of L) (to_numeric_column L col)) = to_numeric_column L col"
    unfolding res by (simp add: as_float_fixed)
  with notint show ?thesis
    by (simp add: to_numeric_column_def[of L "to_numeric_column L col"])
qed

lemma set_summa_length: "length col = length df \<Longrightarrow> length (set_summa df col) = length df"
  by (simp add: set_summa_def)

lemma set_loan_summa_length:
  "length col = length df \<Longrightarrow> length (set_loan_summa df col) = length df"
  by (simp add: set_loan_summa_def)

lemma set_application_date_length:
  "length col = length df \<Longrightarrow> length (set_application_date df col) = length df"
  by (simp add: set_application_date_def)

lemma set_summa_nth:
  "length col = length df \<Longrightarrow> i < length df \<Longrightarrow> set_summa df col ! i = (df ! i)\<lparr>summa := col ! i\<rparr>"
  by (simp add: set_summa_def)

lemma set_loan_summa_nth:
  "length col = length df \<Longrightarrow> i < length df
   \<Longrightarrow> set_loan_summa df col ! i = (df ! i)\<lparr>loan_summa := col ! i\<rparr>"
  by (simp add: set_loan_summa_def)

lemma set_application_date_nth:
  "length col = length df \<Longrightarrow> i < length df
   \<Longrightarrow> set_application_date df col ! i = (df ! i)\<lparr>application_date := col ! i\<rparr>"
  by (simp add: set_application_date_def)

lemma set_summa_loan_column:
  "length col = length df \<Longrightarrow> map loan_summa (set_summa df col) = map loan_summa df"
  by (rule nth_equalityI) (simp_all add: set_summa_length set_summa_nth)

lemma convert_columns_length: "length (convert_columns L df) = length df"
  by (simp add: convert_columns_def Let_def set_summa_length set_loan_summa_length
      to_numeric_column_length)

lemma convert_columns_nth:
  assumes "i < length df"
  shows "convert_columns L df ! i
         = (df ! i)\<lparr>claim_date := to_datetime_format L (claim_date (df ! i)),
                     contract_date := to_datetime_format L (contract_date (df ! i)),
                     summa := to_numeric_column L (map summa df) ! i,
                     loan_summa := to_numeric_column L (map loan_summa df) ! i\<rparr>"
proof -
  define df2 where "df2 = map (\<lambda>r. r\<lparr>contract_date := to_datetime_format L (contract_date r)\<rparr>)
                         (map (\<lambda>r. r\<lparr>claim_date := to_datetime_format L (claim_date r)\<rparr>) df)"
  define df3 where "df3 = set_summa df2 (to_numeric_column L (map summa df2))"
  have l2: "length df2 = length df" by (simp add: df2_def)
  have s2: "map summa df2 = map summa df" by (simp add: df2_def comp_def)
  have ls2: "map loan_summa df2 = map loan_summa df" by (simp add: df2_def comp_def)
  have l3: "length df3 = length df"
    by (simp add: df3_def set_summa_length to_numeric_column_length l2)
  have ls3: "map loan_summa df3 = map loan_summa df"
    by (simp add: df3_def set_summa_loan_column to_numeric_column_length ls2)
  have c: "convert_columns L df = set_loan_summa df3 (to_numeric_column L (map loan_summa df3))"
    unfolding convert_columns_def Let_def df3_def df2_def by (rule refl)
  have n2: "df2 ! i = (df ! i)\<lparr>claim_date := to_datetime_format L (claim_date (df ! i)),
                     contract_date := to_datetime_format L (contract_date (df ! i))\<rparr>"
    using assms by (simp add: df2_def)
  have n3: "df3 ! i = (df2 ! i)\<lparr>summa := to_numeric_column L (map summa df) ! i\<rparr>"
    using assms by (simp add: df3_def set_summa_nth to_numeric_column_length l2 s2)
  show ?thesis
    unfolding c using assms
    by (simp add: set_loan_summa_nth to_numeric_column_length l3 ls3 n3 n2)
qed

lemma convert_columns_ids: "map id' (convert_columns L df) = map id' df"
  by (rule nth_equalityI) (simp_all add: convert_columns_length convert_columns_nth)

lemma convert_columns_application_date:
  "map application_date (convert_columns L df) = map application_date df"
  by (rule nth_equalityI) (simp_all add: convert_columns_length convert_columns_nth)

lemma convert_columns_summa:
  "map summa (convert_columns L df) = to_numeric_column L (map summa df)"
  by (rule nth_equalityI)
    (simp_all add: convert_columns_length convert_columns_nth to_numeric_column_length)

lemma convert_columns_loan_summa:
  "map loan_summa (convert_columns L df) = to_numeric_column L (map loan_summa df)"
  by (rule nth_equalityI)
    (simp_all add: convert_columns_length convert_columns_nth to_numeric_column_length)

lemma convert_columns_idem: "convert_columns L (convert_columns L df) = convert_columns L df"
proof (rule nth_equalityI)
  show "length (convert_columns L (convert_columns L df)) = length (convert_columns L df)"
    by (simp add: convert_columns_length)
next
  fix i assume "i < length (convert_columns L (convert_columns L df))"
  then have i: "i < length df" by (simp add: convert_columns_length)
  then have i': "i < length (convert_columns L df)" by (simp add: convert_columns_length)
  show "convert_columns L (convert_columns L df) ! i = convert_columns L df ! i"
    unfolding convert_columns_nth[OF i'] convert_columns_summa convert_columns_loan_summa
      to_numeric_column_idem
    by (simp add: convert_columns_nth[OF i] to_datetime_format_idem)
qed

lemma convert_True:
  "convert_data_types L df True = (if df = [] then Inl KeyError else Inr (convert_columns L df))"
  by (simp add: convert_data_types_def)

lemma convert_application_date_ids:
  "convert_application_date L df = Inr df1 \<Longrightarrow> map id' df1 = map id' df"
  by (auto simp add: convert_application_date_def Let_def to_datetime_length
      set_application_date_length set_application_date_nth
      intro!: nth_equalityI split: if_splits)

lemma convert_application_date_no_text:
  "convert_application_date L df = Inr df1 \<Longrightarrow> \<not> str_accessor_ok (map application_date df1)"
proof -
  assume a: "convert_application_date L df = Inr df1"
  define tokens where "tokens = map (\<lambda>r. str_split_first (application_date r)) df"
  from a have df1: "df1 = set_application_date df (to_datetime L tokens)"
    by (auto simp add: convert_application_date_def Let_def tokens_def split: if_splits)
  have len: "length (to_datetime L tokens) = length df"
    by (simp add: to_datetime_length tokens_def)
  have "map application_date df1 = to_datetime L tokens"
    unfolding df1 using len
    by (auto intro!: nth_equalityI simp add: set_application_date_length set_application_date_nth)
  then show ?thesis
    by (simp add: str_accessor_ok_def to_datetime_no_text)
qed

lemma convert_Inr:
  "convert_data_types L df b = Inr df' \<Longrightarrow>
     df \<noteq> [] \<and> (\<exists>df1. (if b then df1 = df else convert_application_date L df = Inr df1)
                      \<and> df' = convert_columns L df1)"
  by (auto simp add: convert_data_types_def split: if_splits sum.splits)

lemma convert_ids:
  assumes "convert_data_types L df b = Inr df'"
  shows "map id' df' = map id' df"
proof -
  from convert_Inr[OF assms] obtain df1 where
    df1: "if b then df1 = df else convert_application_date L df = Inr df1"
    and df': "df' = convert_columns L df1" by blast
  have "map id' df1 = map id' df"
    using df1 by (auto dest: convert_application_date_ids split: if_splits)
  moreover have "map id' df' = map id' df1"
    by (simp add: df' convert_columns_ids)
  ultimately show ?thesis by simp
qed

lemma convert_nonempty:
  assumes "convert_data_types L df b = Inr df'"
  shows "df' \<noteq> []"
  using convert_ids[OF assms] convert_Inr[OF assms] by (metis map_is_Nil_conv)

lemma convert_again_True:
  assumes "convert_data_types L df b = Inr df'"
  shows "convert_data_types L df' True = Inr df'"
proof -
  from convert_Inr[OF assms] obtain df1 where df': "df' = convert_columns L df1" by blast
  have "convert_columns L df' = df'"
    by (simp add: df' convert_columns_idem)
  with convert_nonempty[OF assms] show ?thesis
    by (simp add: convert_True)
qed

lemma convert_again_False:
  assumes "convert_data_types L df False = Inr df'"
  shows "convert_data_types L df' False = Inl AttributeError"
proof -
  from convert_Inr[OF assms] obtain df1 where
    df1: "convert_application_date L df = Inr df1"
    and df': "df' = convert_columns L df1" by auto
  have "map application_date df' = map application_date df1"
    by (simp add: df' convert_columns_application_date)
  with convert_application_date_no_text[OF df1]
  have "\<not> str_accessor_ok (map application_date df')" by simp
  then have "convert_application_date L df' = Inl AttributeError"
    by (simp add: convert_application_date_def)
  with convert_nonempty[OF assms] show ?thesis
    by (simp add: convert_data_types_def)
qed

section \<open>Facts about the aggregating functions\<close>

lemma these_ids: "Option.these (set (map id' df)) = {k. \<exists>r \<in> set df. id' r = Some k}"
proof (rule set_eqI)
  fix k
  have "Some k \<in> set (map id' df) \<longleftrightarrow> (\<exists>r \<in> set df. id' r = Some k)"
    by (simp add: image_iff) (rule bex_cong, simp, rule eq_commute)
  then show "k \<in> Option.these (set (map id' df)) \<longleftrightarrow> k \<in> {k. \<exists>r \<in> set df. id' r = Some k}"
    by (simp only: in_these_eq mem_Collect_eq)
qed

lemma finite_these_ids: "finite (Option.these (set (map id' df)))"
  by (simp add: Option.these_def)

lemma identifiers_set: "set (identifiers df) = {k. \<exists>r \<in> set df. id' r = Some k}"
  unfolding identifiers_def set_sorted_list_of_set[OF finite_these_ids]
  by (rule these_ids)

lemma group_keys_identifiers: "group_keys df = identifiers df"
proof -
  have "set (concat (map (\<lambda>r. case id' r of None \<Rightarrow> [] | Some k \<Rightarrow> [k]) df))
        = Option.these (set (map id' df))"
    by (auto simp add: in_these_eq split: option.splits)
  then show ?thesis
    unfolding group_keys_def identifiers_def
    by (simp only: sorted_list_of_set_sort_remdups [symmetric])
qed

lemma get_group_rows_of: "get_group df k = rows_of df k"
  by (simp add: get_group_def rows_of_def)

lemma rows_of_nonempty: "k \<in> set (identifiers df) \<Longrightarrow> rows_of df k \<noteq> []"
  by (auto simp add: identifiers_set rows_of_def filter_empty_conv)

lemma collect_all_Inr:
  "(\<And>k. k \<in> set ks \<Longrightarrow> F k = Inr (h k))
   \<Longrightarrow> collect (map (\<lambda>k. (k, F k)) ks) = Inr (map (\<lambda>k. (k, h k)) ks)"
  by (induction ks) auto

lemma collect_Inr_D:
  "collect (map (\<lambda>k. (k, F k)) ks) = Inr res \<Longrightarrow> k \<in> set ks \<Longrightarrow> \<exists>v. F k = Inr v"
proof (induction ks arbitrary: res)
  case Nil
  then show ?case by simp
next
  case (Cons a ks)
  then show ?case
    by (auto split: sum.splits)
qed

lemma groupby_apply_total:
  assumes "df \<noteq> []" "identifiers df \<noteq> []"
    and "\<And>k. k \<in> set (identifiers df) \<Longrightarrow> f (rows_of df k) = Inr (h (rows_of df k))"
  shows "groupby_apply f df = Inr (map (\<lambda>k. (k, h (rows_of df k))) (identifiers df))"
  using assms(1,2) collect_all_Inr[of "identifiers df" "\<lambda>k. f (rows_of df k)"
      "\<lambda>k. h (rows_of df k)", OF assms(3)]
  by (simp add: groupby_apply_def group_keys_identifiers get_group_rows_of)

lemma groupby_apply_Inr:
  assumes "groupby_apply f df = Inr res"
    and "\<And>g. g \<noteq> [] \<Longrightarrow> f g = (if ok g then Inr (h g) else Inl e)"
  shows "df \<noteq> [] \<and> identifiers df \<noteq> []
         \<and> (\<forall>k \<in> set (identifiers df). ok (rows_of df k))
         \<and> res = map (\<lambda>k. (k, h (rows_of df k))) (identifiers df)"
proof -
  from assms(1) have ne: "df \<noteq> []" "identifiers df \<noteq> []"
    and c: "collect (map (\<lambda>k. (k, f (rows_of df k))) (identifiers df)) = Inr res"
    by (auto simp add: groupby_apply_def group_keys_identifiers get_group_rows_of
        split: if_splits)
  have ok: "ok (rows_of df k)" if "k \<in> set (identifiers df)" for k
  proof -
    from collect_Inr_D[OF c that] obtain v where "f (rows_of df k) = Inr v" by blast
    with assms(2)[OF rows_of_nonempty[OF that]] show ?thesis
      by (auto split: if_splits)
  qed
  have "f (rows_of df k) = Inr (h (rows_of df k))" if "k \<in> set (identifiers df)" for k
    using assms(2)[OF rows_of_nonempty[OF that]] ok[OF that] by simp
  from collect_all_Inr[of "identifiers df" "\<lambda>k. f (rows_of df k)" "\<lambda>k. h (rows_of df k)", OF this]
    c have "res = map (\<lambda>k. (k, h (rows_of df k))) (identifiers df)" by simp
  with ne ok show ?thesis by blast
qed

lemma window_filter:
  "filter (\<lambda>x. ts_ge (claim_date x) (Some (a - 180 * ns_per_day)) \<and> ts_le (claim_date x) (Some a)) g
   = filter (\<lambda>x. case claim_date x of None \<Rightarrow> False
                              | Some c \<Rightarrow> a - 180 * ns_per_day \<le> c \<and> c \<le> a) g"
  by (auto simp add: ts_ge_def ts_le_def split: option.splits intro!: filter_cong)

lemma window_filter_NaT:
  "filter (\<lambda>x. ts_ge (claim_date x) None \<and> ts_le (claim_date x) None) g = []"
  by (simp add: ts_ge_def ts_le_def split: option.splits)

lemma claims_cons:
  "claims_in_last_180_days (r # rest)
   = (if window_fits (r # rest) then Inr (spec_tot_claim_cnt_l180d (r # rest))
      else Inl OutOfBoundsDatetime)"
proof (cases "application_date r")
  case None
  then show ?thesis
    unfolding claims_in_last_180_days_def
    by (simp add: iloc0_def minus_days_def window_filter_NaT window_fits_def
        group_application_date_def spec_tot_claim_cnt_l180d_def window_count_def)
next
  case (Some a)
  show ?thesis
  proof (cases "in_bounds (a - 180 * ns_per_day)")
    case True
    then have m: "minus_days (Some a) 180 = Inr (Some (a - 180 * ns_per_day))"
      by (simp add: minus_days_def)
    from True have f: "window_fits (r # rest)"
      by (simp add: window_fits_def group_application_date_def Some in_bounds_def ts_max_def)
    have i: "iloc0 (map application_date (r # rest)) = Inr (Some a)"
      by (simp add: iloc0_def Some)
    have "claims_in_last_180_days (r # rest)
          = Inr (if length (filter (\<lambda>x. ts_ge (claim_date x) (Some (a - 180 * ns_per_day))
                                       \<and> ts_le (claim_date x) (Some a)) (r # rest)) > 0
                 then int (length (filter (\<lambda>x. ts_ge (claim_date x) (Some (a - 180 * ns_per_day))
                                       \<and> ts_le (claim_date x) (Some a)) (r # rest)))
                 else - 3)"
      by (simp only: claims_in_last_180_days_def i m Let_def sum.case)
    also have "\<dots> = Inr (spec_tot_claim_cnt_l180d (r # rest))"
      unfolding window_filter
      by (simp add: spec_tot_claim_cnt_l180d_def window_count_def
          group_application_date_def Some Let_def Suc_le_eq del: filter.simps)
    finally show ?thesis using f by simp
  next
    case False
    then have m: "minus_days (Some a) 180 = Inl OutOfBoundsDatetime"
      by (simp add: minus_days_def)
    from False have f: "\<not> window_fits (r # rest)"
      by (simp add: window_fits_def group_application_date_def Some in_bounds_def ts_max_def)
    have i: "iloc0 (map application_date (r # rest)) = Inr (Some a)"
      by (simp add: iloc0_def Some)
    have "claims_in_last_180_days (r # rest) = Inl OutOfBoundsDatetime"
      by (simp only: claims_in_last_180_days_def i m sum.case)
    then show ?thesis using f by simp
  qed
qed

lemma claims_nonempty:
  "g \<noteq> [] \<Longrightarrow> claims_in_last_180_days g
     = (if window_fits g then Inr (spec_tot_claim_cnt_l180d g) else Inl OutOfBoundsDatetime)"
  by (cases g) (simp_all only: claims_cons list.distinct not_False_eq_True, simp)

lemma claims_never_zero: "claims_in_last_180_days g \<noteq> Inr 0"
  by (cases g)
    (auto simp add: claims_in_last_180_days_def iloc0_def Let_def
      split: list.splits sum.splits)

lemma spec_tot_never_zero: "spec_tot_claim_cnt_l180d g \<noteq> 0"
  by (simp add: spec_tot_claim_cnt_l180d_def Let_def)

lemma calculate_tot_Inr:
  assumes "calculate_tot_claim_cnt_l180d df = Inr res"
  shows "df \<noteq> [] \<and> identifiers df \<noteq> []
         \<and> (\<forall>k \<in> set (identifiers df). window_fits (rows_of df k))
         \<and> res = map (\<lambda>k. (k, spec_tot_claim_cnt_l180d (rows_of df k))) (identifiers df)"
  using assms unfolding calculate_tot_claim_cnt_l180d_def
  by (rule groupby_apply_Inr) (rule claims_nonempty)

lemma calculate_tot_total:
  assumes "df \<noteq> []" "identifiers df \<noteq> []"
    and "\<And>k. k \<in> set (identifiers df) \<Longrightarrow> window_fits (rows_of df k)"
  shows "calculate_tot_claim_cnt_l180d df
         = Inr (map (\<lambda>k. (k, spec_tot_claim_cnt_l180d (rows_of df k))) (identifiers df))"
  unfolding calculate_tot_claim_cnt_l180d_def
  by (rule groupby_apply_total[OF assms(1,2)])
    (simp add: claims_nonempty rows_of_nonempty assms(3))

lemma notna_missing: "notna L c = (\<not> missing L c)"
  by (simp add: notna_def missing_def split: cell.splits json.splits number.splits)

lemma valid_loans_surviving:
  "filter (\<lambda>r. notna L (bank r) \<and> \<not> isin (bank r) excluded_banks \<and> contract_date r \<noteq> None) g
   = surviving_loans L g"
  unfolding surviving_loans_def
  by (rule filter_cong)
    (auto simp add: notna_missing isin_def excluded_banks_def missing_def)

lemma is_int64_all: "list_all is_int64 (map loan_summa s) = all_integers s"
  by (simp add: all_integers_def list_all_iff is_int64_def)

lemma floats_values: "floats L (map loan_summa s) = float_values L s"
  by (simp add: floats_def float_values_def comp_def)

lemma ints_sum: "sum_list (ints (map loan_summa s)) = word_of_int (integer_sum s)"
proof (induction s)
  case Nil
  then show ?case by (simp add: ints_def integer_sum_def)
next
  case (Cons r s)
  then show ?case
    by (auto simp add: ints_def integer_sum_def split: option.splits number.splits)
qed

lemma sint_fits:
  "- 9223372036854775808 \<le> i \<Longrightarrow> i \<le> 9223372036854775807
   \<Longrightarrow> sint (word_of_int i :: 64 word) = i"
  by (simp add: sint_sbintrunc' signed_take_bit_int_eq_self)

lemma sum_loans_eq:
  "sum_loans_wo_tbc L g =
     (if surviving_loans L g = [] then PyInt (- 1)
      else if all_integers (surviving_loans L g)
           then (if 0 < sint (word_of_int (integer_sum (surviving_loans L g)) :: 64 word)
                 then NpInt (word_of_int (integer_sum (surviving_loans L g)))
                 else PyInt (- 3))
           else (if np_positive L (np_sum L (float_values L (surviving_loans L g)))
                 then NpFloat (np_sum L (float_values L (surviving_loans L g)))
                 else PyInt (- 3)))"
  unfolding sum_loans_wo_tbc_def valid_loans_surviving Let_def series_sum_def
    is_int64_all floats_values ints_sum
  by (simp add: gt_zero_def)

lemma sum_loans_spec:
  assumes "integer_sum_fits L g"
  shows "sum_loans_wo_tbc L g = spec_disb_bank_loan_wo_tbc L g"
proof -
  from assms have "sint (word_of_int (integer_sum (surviving_loans L g)) :: 64 word)
                   = integer_sum (surviving_loans L g)"
    by (simp add: integer_sum_fits_def sint_fits)
  then show ?thesis
    unfolding sum_loans_eq spec_disb_bank_loan_wo_tbc_def by auto
qed

lemma result_column_keys: "map fst (result_column L res) = map fst res"
  by (auto simp add: result_column_def)

lemma result_column_length: "length (result_column L res) = length res"
  by (simp add: result_column_def)

lemma result_column_map:
  "result_column L (map (\<lambda>k. (k, h k)) ks)
   = (if list_ex (\<lambda>k. is_float (h k)) ks then map (\<lambda>k. (k, to_float L (h k))) ks
      else map (\<lambda>k. (k, h k)) ks)"
  by (simp add: result_column_def list_ex_iff comp_def)

lemma calculate_disb_Inr:
  assumes "calculate_disb_bank_loan_wo_tbc L df = Inr res"
  shows "df \<noteq> [] \<and> identifiers df \<noteq> []
         \<and> res = result_column L (map (\<lambda>k. (k, sum_loans_wo_tbc L (rows_of df k))) (identifiers df))"
proof -
  from assms obtain res0 where
    g: "groupby_apply (\<lambda>sub_df. Inr (sum_loans_wo_tbc L sub_df)) df = Inr res0"
    and r: "res = result_column L res0"
    by (auto simp add: calculate_disb_bank_loan_wo_tbc_def split: sum.splits)
  from groupby_apply_Inr[of _ df res0 "\<lambda>g. True" "sum_loans_wo_tbc L" KeyError, OF g]
  have "df \<noteq> [] \<and> identifiers df \<noteq> []
        \<and> res0 = map (\<lambda>k. (k, sum_loans_wo_tbc L (rows_of df k))) (identifiers df)"
    by simp
  with r show ?thesis by simp
qed

lemma calculate_disb_total:
  assumes "df \<noteq> []" "identifiers df \<noteq> []"
  shows "calculate_disb_bank_loan_wo_tbc L df
         = Inr (result_column L (map (\<lambda>k. (k, sum_loans_wo_tbc L (rows_of df k))) (identifiers df)))"
  unfolding calculate_disb_bank_loan_wo_tbc_def
  using groupby_apply_total[of df "\<lambda>sub_df. Inr (sum_loans_wo_tbc L sub_df)" "sum_loans_wo_tbc L",
      OF assms]
  by simp

lemma positive_filter:
  "filter (\<lambda>r. number_positive L (summa r)) g = positive_summa L g"
  by (simp add: positive_summa_def number_positive_def)

lemma fold_max_Max: "fold max vs (v::int) = Max (set (v # vs))"
  by (simp only: Max.set_eq_fold)

lemma nanmax_loan_dates:
  "nanmax (map contract_date (positive_summa L g))
   = (if loan_dates L g = [] then None else Some (Max (set (loan_dates L g))))"
proof -
  define ds where "ds = loan_dates L g"
  have "nanmax (map contract_date (positive_summa L g))
        = (case ds of [] \<Rightarrow> None | v # vs \<Rightarrow> Some (fold max vs v))"
    by (simp add: nanmax_def ds_def loan_dates_def comp_def)
  also have "\<dots> = (if ds = [] then None else Some (Max (set ds)))"
    by (cases ds) (simp_all only: list.case fold_max_Max list.distinct if_True if_False, simp)
  finally show ?thesis by (simp add: ds_def)
qed

lemma days_eq:
  "days_since_last_loan L g
   = (if difference_fits L g then Inr (spec_day_sinlastloan L g) else Inl OutOfBoundsDatetime)"
proof (cases "positive_summa L g = []")
  case True
  then have "loan_dates L g = []" by (simp add: loan_dates_def)
  with True show ?thesis
    by (simp add: days_since_last_loan_def positive_filter spec_day_sinlastloan_def
        difference_fits_def split: option.splits)
next
  case False
  then obtain r rest where g: "g = r # rest" by (cases g) (auto simp add: positive_summa_def)
  have i: "iloc0 (map application_date g) = Inr (application_date r)"
    by (simp add: g iloc0_def)
  have a: "group_application_date g = application_date r"
    by (simp add: g group_application_date_def)
  have d: "days_since_last_loan L g
           = (case days_between (application_date r)
                     (if loan_dates L g = [] then None else Some (Max (set (loan_dates L g)))) of
                Inl e \<Rightarrow> Inl e
              | Inr None \<Rightarrow> Inr (- 3)
              | Inr (Some days_diff) \<Rightarrow> Inr (if days_diff > 0 then days_diff else - 3))"
    using False
    by (simp only: days_since_last_loan_def positive_filter Let_def i nanmax_loan_dates
        if_False sum.case)
  show ?thesis
  proof (cases "application_date r")
    case None
    then show ?thesis
      unfolding d using False
      by (simp add: days_between_def difference_fits_def a spec_day_sinlastloan_def)
  next
    case (Some x)
    show ?thesis
    proof (cases "loan_dates L g = []")
      case True
      then show ?thesis
        unfolding d using False Some
        by (simp add: days_between_def difference_fits_def a spec_day_sinlastloan_def)
    next
      case nonempty: False
      then show ?thesis
        unfolding d using False Some
        by (simp add: days_between_def difference_fits_def a spec_day_sinlastloan_def
            in_bounds_def ts_max_def Let_def not_less)
    qed
  qed
qed

lemma calculate_day_Inr:
  assumes "calculate_day_sinlastloan L df = Inr res"
  shows "df \<noteq> [] \<and> identifiers df \<noteq> []
         \<and> (\<forall>k \<in> set (identifiers df). difference_fits L (rows_of df k))
         \<and> res = map (\<lambda>k. (k, spec_day_sinlastloan L (rows_of df k))) (identifiers df)"
  using assms unfolding calculate_day_sinlastloan_def
  by (rule groupby_apply_Inr) (rule days_eq)

lemma calculate_day_total:
  assumes "df \<noteq> []" "identifiers df \<noteq> []"
    and "\<And>k. k \<in> set (identifiers df) \<Longrightarrow> difference_fits L (rows_of df k)"
  shows "calculate_day_sinlastloan L df
         = Inr (map (\<lambda>k. (k, spec_day_sinlastloan L (rows_of df k))) (identifiers df))"
  unfolding calculate_day_sinlastloan_def
  by (rule groupby_apply_total[OF assms(1,2)]) (simp add: days_eq assms(3))

section \<open>Facts about the notebook\<close>

lemma merge_features_ids:
  "f \<in> set (merge_features tot disb day dates) \<Longrightarrow> f_id f \<in> fst ` set tot"
  by (auto simp add: merge_features_def split: if_splits) force

lemma features_df_ids:
  assumes "features_df L data = Inr out" "f \<in> set out"
  shows "f_id f \<in> set (identifiers data)"
proof -
  from assms(1) obtain tot disb day where
    t: "calculate_tot_claim_cnt_l180d data = Inr tot"
    and out: "out = merge_features tot disb day (application_dates data)"
    by (auto simp add: features_df_def split: sum.splits)
  from calculate_tot_Inr[OF t]
  have "tot = map (\<lambda>k. (k, spec_tot_claim_cnt_l180d (rows_of data k))) (identifiers data)"
    by simp
  with merge_features_ids[OF assms(2)[unfolded out]] show ?thesis by force
qed

lemma typed_ids: "map id' (map typed df) = map id' df"
  by (simp add: typed_def comp_def)

lemma identifiers_ids: "k \<in> set (identifiers df) \<longleftrightarrow> Some k \<in> set (map id' df)"
  by (auto simp add: identifiers_set) force

lemma notebook_Inr:
  assumes "notebook L csv = Inr out"
  shows "\<exists>data0 data1 data.
           parse_contracts L csv = Inr data0
           \<and> convert_data_types L data0 False = Inr data1
           \<and> parse_contracts_by_explode L csv = Inr ()
           \<and> convert_data_types L data1 True = Inr data
           \<and> features_df L (map typed data) = Inr out"
  using assms by (auto simp add: notebook_def split: sum.splits)

lemma notebook_ids:
  assumes "notebook L csv = Inr out" "f \<in> set out"
  shows "\<exists>r\<in>set csv. csv_id r = Some (f_id f) \<and> record_rows L r \<noteq> Inr []"
proof -
  from notebook_Inr[OF assms(1)] obtain data0 data1 data where
    p: "parse_contracts L csv = Inr data0"
    and c1: "convert_data_types L data0 False = Inr data1"
    and c2: "convert_data_types L data1 True = Inr data"
    and fd: "features_df L (map typed data) = Inr out"
    by blast
  from features_df_ids[OF fd assms(2)] have "Some (f_id f) \<in> set (map id' data)"
    by (simp only: identifiers_ids typed_ids)
  then have "Some (f_id f) \<in> set (map id' data0)"
    by (simp only: convert_ids[OF c1] convert_ids[OF c2])
  then obtain row where row: "row \<in> set data0" "id' row = Some (f_id f)" by auto
  from p have "parse_loop L (drop_duplicates (sort_values csv)) = Inr data0"
    by (simp add: parse_contracts_def)
  from parse_loop_rows[OF this row(1)] obtain r rs where
    r: "r \<in> set (drop_duplicates (sort_values csv))" "record_rows L r = Inr rs" "row \<in> set rs"
    by blast
  from r(1) have "r \<in> set csv"
    using drop_duplicates_subset sort_values_set by blast
  moreover have "csv_id r = Some (f_id f)"
    using record_rows_id[OF r(2) r(3)] row(2) by simp
  moreover have "record_rows L r \<noteq> Inr []"
    using r(2) r(3) by auto
  ultimately show ?thesis by blast
qed

lemma null_or_empty_no_payload: "null_or_empty r \<Longrightarrow> no_payload L r"
  by (auto simp add: null_or_empty_def no_payload_def)

lemma notebook_absent:
  assumes "notebook L csv = Inr out"
    and "list_all (\<lambda>r. csv_id r = Some k \<longrightarrow> no_payload L r) csv"
  shows "k \<notin> f_id ` set out"
proof
  assume "k \<in> f_id ` set out"
  then obtain f where f: "f \<in> set out" "f_id f = k" by auto
  from notebook_ids[OF assms(1) f(1)] obtain r where
    "r \<in> set csv" "csv_id r = Some k" "record_rows L r \<noteq> Inr []" using f(2) by auto
  with assms(2) show False
    by (auto simp add: list_all_iff no_payload_rows)
qed

lemma parse_loop_all_empty:
  "list_all (\<lambda>r. record_rows L r = Inr []) xs \<Longrightarrow> parse_loop L xs = Inr []"
  by (induction xs) auto

lemma parse_contracts_all_skipped:
  assumes "list_all (no_payload L) data"
  shows "parse_contracts L data = Inr []"
proof -
  have "list_all (\<lambda>r. record_rows L r = Inr []) (drop_duplicates (sort_values data))"
    using assms drop_duplicates_subset[of "sort_values data"] sort_values_set[of data]
    by (auto simp add: list_all_iff no_payload_rows)
  then show ?thesis
    by (simp add: parse_contracts_def parse_loop_all_empty)
qed

lemma notebook_all_skipped:
  "list_all (no_payload L) data \<Longrightarrow> notebook L data = Inl KeyError"
  by (simp add: notebook_def parse_contracts_all_skipped convert_data_types_def)

section \<open>The scenarios, evaluated\<close>

lemmas scen_defs = scenario_A_def scenario_B_def scenario_C_def scenario_E_def
  scenario_A_text_def scenario_B_text_def scenario_E_text_def
  scenario_A_json_def scenario_B_json_def scenario_E_json_def

lemmas parse_defs = parse_contracts_def sort_values_def record_rows_def iterate_def
  make_row_def get_def text_cell_def

lemmas convert_defs = convert_data_types_def convert_application_date_def convert_columns_def
  str_accessor_ok_def is_text_def str_split_first_def first_token_def is_space_def
  first_text_def to_datetime_def to_datetime_format_def stamp_def in_bounds_def ts_max_def
  to_numeric_column_def number_of_def is_int64_def as_float_def float_cell_def
  set_application_date_def set_summa_def set_loan_summa_def

lemmas explode_defs = parse_contracts_by_explode_def explode_key_def na_last_def time_of_def

lemmas feature_defs = features_df_def typed_def time_of_def num_of_def
  calculate_tot_claim_cnt_l180d_def calculate_disb_bank_loan_wo_tbc_def
  calculate_day_sinlastloan_def groupby_apply_def group_keys_def get_group_def
  claims_in_last_180_days_def sum_loans_wo_tbc_def days_since_last_loan_def
  iloc0_def minus_days_def ts_ge_def ts_le_def notna_def isin_def excluded_banks_def
  series_sum_def ints_def floats_def gt_zero_def number_positive_def
  nanmax_def days_between_def result_column_def is_float_def to_float_def
  merge_features_def application_dates_def drop_duplicates_first_def

lemma midnights:
  "midnight 2024 1 1 = 1704067200000000000"
  "midnight 2024 2 1 = 1706745600000000000"
  "midnight 2024 3 1 = 1709251200000000000"
  "midnight 1700 1 1 = - 8520336000000000000"
  "midnight 1677 12 1 = - 9217238400000000000"
  by (simp_all add: midnight_def days_from_civil_def ns_per_day_def)

lemma scenario_lib_ok: "pandas_on_scenarios scenario_lib"
  unfolding pandas_on_scenarios_def
  by (intro conjI) (simp_all add: scenario_lib_def scen_defs)

lemma texts_nonempty:
  "scenario_A_text \<noteq> []" "scenario_B_text \<noteq> []" "scenario_E_text \<noteq> []"
  "scenario_A_text \<noteq> ''abc''"
  by (simp_all add: scenario_A_text_def scenario_B_text_def scenario_E_text_def)


lemma convert_A:
  assumes "pandas_on_scenarios L"
  shows "convert_data_types L scenario_A_frame False = Inr scenario_A_converted"
  using assms unfolding pandas_on_scenarios_def
  by (simp add: scenario_A_frame_def scenario_A_converted_def convert_defs midnights)

lemma convert_A_again:
  assumes "pandas_on_scenarios L"
  shows "convert_data_types L scenario_A_converted True = Inr scenario_A_converted"
  using convert_again_True[OF convert_A[OF assms]] .


lemma typed_A: "map typed scenario_A_converted = scenario_A_table"
  by (simp add: scenario_A_converted_def scenario_A_table_def typed_def time_of_def num_of_def)

lemma features_A:
  "features_df L scenario_A_table
   = Inr [\<lparr>f_id = 1, f_application_date = Some (midnight 2024 3 1),
           tot_claim_cnt_l180d = 1, disb_bank_loan_wo_tbc = NpInt 1000,
           day_sinlastloan = - 1\<rparr>]"
  by (simp add: scenario_A_table_def feature_defs midnights ns_per_day_def in_bounds_def
      ts_max_def is_int64_def Let_def)


lemma parse_CA:
  assumes "pandas_on_scenarios L"
  shows "parse_contracts L (scenario_C @ scenario_A) = Inr scenario_A_frame"
  using assms unfolding pandas_on_scenarios_def
  by (simp add: scenario_C_def scenario_A_def scenario_A_frame_def parse_defs scenario_A_json_def
      texts_nonempty sort_key_of_def na_last_def)

lemma explode_CA:
  assumes "pandas_on_scenarios L"
  shows "parse_contracts_by_explode L (scenario_C @ scenario_A) = Inr ()"
  using assms unfolding pandas_on_scenarios_def
  by (simp add: scenario_A_def scenario_C_def explode_defs text_cell_def convert_defs
      texts_nonempty)

lemma notebook_CA:
  assumes "pandas_on_scenarios L"
  shows "notebook L (scenario_C @ scenario_A)
         = Inr [\<lparr>f_id = 1, f_application_date = Some (midnight 2024 3 1),
         tot_claim_cnt_l180d = 1, disb_bank_loan_wo_tbc = NpInt 1000,
         day_sinlastloan = - 1\<rparr>]"
  by (simp add: notebook_def parse_CA[OF assms] convert_A[OF assms] explode_CA[OF assms]
      convert_A_again[OF assms] typed_A features_A)

lemma parse_A_invalid:
  assumes "pandas_on_scenarios L"
  shows "parse_contracts L (scenario_A @ scenario_invalid) = Inr scenario_A_frame"
  using assms unfolding pandas_on_scenarios_def
  by (simp add: scenario_invalid_def scenario_A_def scenario_A_frame_def parse_defs
      scenario_A_json_def texts_nonempty sort_key_of_def na_last_def)

lemma explode_A_invalid:
  assumes "pandas_on_scenarios L"
  shows "parse_contracts_by_explode L (scenario_A @ scenario_invalid) = Inl JSONDecodeError"
  using assms unfolding pandas_on_scenarios_def
  by (simp add: scenario_A_def scenario_invalid_def explode_defs text_cell_def convert_defs
      texts_nonempty)

lemma notebook_A_invalid:
  assumes "pandas_on_scenarios L"
  shows "notebook L (scenario_A @ scenario_invalid) = Inl JSONDecodeError"
  by (simp add: notebook_def parse_A_invalid[OF assms] convert_A[OF assms]
      explode_A_invalid[OF assms])

lemma notebook_C:
  "notebook L scenario_C = Inl KeyError"
  by (rule notebook_all_skipped) (simp add: scenario_C_def no_payload_def)

lemma parse_B:
  assumes "pandas_on_scenarios L"
  shows "parse_contracts L scenario_B = Inr [\<lparr> id' = Some 2, application_date = Obj (JStr ''2024-03-01''),
        contract_id = NA, bank = Obj (JStr ''MKO''), summa = NA, loan_summa = Obj (JStr ''500''),
        claim_date = NA, claim_id = NA, contract_date = Obj (JStr ''01.01.2024'') \<rparr>]"
  using assms unfolding pandas_on_scenarios_def
  by (simp add: scenario_B_def parse_defs scenario_B_json_def texts_nonempty)

lemma explode_B:
  assumes "pandas_on_scenarios L"
  shows "parse_contracts_by_explode L scenario_B = Inr ()"
  using assms unfolding pandas_on_scenarios_def
  by (simp add: scenario_B_def explode_defs text_cell_def convert_defs texts_nonempty)

lemma notebook_B:
  assumes "pandas_on_scenarios L"
  shows "notebook L scenario_B = Inr [\<lparr>f_id = 2, f_application_date = Some (midnight 2024 3 1),
         tot_claim_cnt_l180d = - 3, disb_bank_loan_wo_tbc = PyInt (- 1),
         day_sinlastloan = - 1\<rparr>]"
  using assms unfolding pandas_on_scenarios_def
  by (simp add: notebook_def parse_B[OF assms] explode_B[OF assms] convert_defs feature_defs
      midnights ns_per_day_def Let_def)

lemma parse_E:
  assumes "pandas_on_scenarios L"
  shows "parse_contracts L scenario_E = Inr [\<lparr> id' = Some 5, application_date = Obj (JStr ''2024-02-01''),
        contract_id = NA, bank = NA, summa = Obj (JStr ''750''), loan_summa = NA,
        claim_date = NA, claim_id = NA, contract_date = Obj (JStr ''01.01.2024'') \<rparr>]"
  using assms unfolding pandas_on_scenarios_def
  by (simp add: scenario_E_def parse_defs scenario_E_json_def texts_nonempty)

lemma explode_E:
  assumes "pandas_on_scenarios L"
  shows "parse_contracts_by_explode L scenario_E = Inr ()"
  using assms unfolding pandas_on_scenarios_def
  by (simp add: scenario_E_def explode_defs text_cell_def convert_defs texts_nonempty)

lemma notebook_E:
  assumes "pandas_on_scenarios L"
  shows "notebook L scenario_E = Inr [\<lparr>f_id = 5, f_application_date = Some (midnight 2024 2 1),
         tot_claim_cnt_l180d = - 3, disb_bank_loan_wo_tbc = PyInt (- 1),
         day_sinlastloan = 31\<rparr>]"
  using assms unfolding pandas_on_scenarios_def
  by (simp add: notebook_def parse_E[OF assms] explode_E[OF assms] convert_defs feature_defs
      midnights ns_per_day_def Let_def)

lemma parse_number:
  assumes "pandas_on_scenarios L"
  shows "parse_contracts L scenario_number = Inl TypeError"
  using assms unfolding pandas_on_scenarios_def
  by (simp add: scenario_number_def parse_defs)

lemma parse_D:
  assumes "pandas_on_scenarios L"
  shows "parse_contracts L scenario_D = Inr [scenario_D_row]"
  using assms unfolding pandas_on_scenarios_def
  by (simp add: scenario_D_def scenario_D_row_def parse_defs scenario_A_json_def texts_nonempty
      sort_key_of_def na_last_def)

lemma collect_keys: "collect xs = Inr ys \<Longrightarrow> map fst ys = map fst xs"
  by (induction xs arbitrary: ys) (auto split: sum.splits)

lemma groupby_apply_keys:
  assumes "groupby_apply f df = Inr res"
  shows "map fst res = identifiers df"
proof -
  from assms have "collect (map (\<lambda>k. (k, f (rows_of df k))) (identifiers df)) = Inr res"
    by (auto simp add: groupby_apply_def group_keys_identifiers get_group_rows_of
        split: if_splits)
  from collect_keys[OF this] show ?thesis by (simp add: comp_def)
qed

lemma result_column_spec:
  "result_column L vs
   = (if list_ex (\<lambda>(k, v). case v of NpFloat _ \<Rightarrow> True | _ \<Rightarrow> False) vs
      then map (\<lambda>(k, v). (k, NpFloat (number_as_float L v))) vs
      else vs)"
proof -
  have "to_float L v = NpFloat (number_as_float L v)" for v
    by (cases v) (simp_all add: to_float_def number_as_float_def)
  then show ?thesis
    by (simp add: result_column_def is_float_def)
qed

lemma calculate_disb_spec:
  assumes "identifiers df \<noteq> []"
    and "list_all (\<lambda>k. integer_sum_fits L (rows_of df k)) (identifiers df)"
  shows "calculate_disb_bank_loan_wo_tbc L df = Inr (spec_disb_column L df)"
proof -
  from assms(1) have ne: "df \<noteq> []" by (auto simp add: identifiers_def)
  have "map (\<lambda>k. (k, sum_loans_wo_tbc L (rows_of df k))) (identifiers df)
        = map (\<lambda>k. (k, spec_disb_bank_loan_wo_tbc L (rows_of df k))) (identifiers df)"
    using assms(2) by (auto simp add: list_all_iff sum_loans_spec)
  then show ?thesis
    by (simp only: calculate_disb_total[OF ne assms(1)] spec_disb_column_def Let_def
        result_column_spec)
qed

lemma identifiers_two: "identifiers two_applications = [1, 5]"
  unfolding group_keys_identifiers [symmetric]
  by (simp add: group_keys_def two_applications_def scenario_E_group_def scenario_A_table_def)

lemma rows_of_two:
  "rows_of two_applications 1 = scenario_A_table"
  "rows_of two_applications 5 = scenario_E_group"
  by (simp_all add: rows_of_def two_applications_def scenario_E_group_def scenario_A_table_def)

section \<open>The claims\<close>

subsection \<open>C1: an application without contract rows\<close>

text \<open>
  C1, as amended. The feature table is built from the contract table alone
  (\<^verbatim>\<open>application_dates\<close> and the three \<^verbatim>\<open>groupby('id')\<close> all read \<^verbatim>\<open>data\<close>), and a
  record whose contracts text is missing or empty adds no row to the contract table.
  So when every record of an application has a missing or empty contracts text,
  the table the notebook writes has no row for that application: no sentinel is
  written for it.
\<close>

theorem absent_without_contract_rows:
  "notebook L csv = Inr out
   \<Longrightarrow> list_all null_or_empty (filter (\<lambda>r. csv_id r = Some k) csv)
   \<Longrightarrow> k \<notin> f_id ` set out"
proof -
  assume n: "notebook L csv = Inr out"
    and e: "list_all null_or_empty (filter (\<lambda>r. csv_id r = Some k) csv)"
  from e have "list_all (\<lambda>r. csv_id r = Some k \<longrightarrow> no_payload L r) csv"
    by (auto simp add: list_all_iff null_or_empty_no_payload)
  with n show ?thesis by (rule notebook_absent)
qed

text \<open>
  The theorem at scenario C followed by scenario A: application 3 has a missing
  contracts text, and the table has the row of application 1 only.
\<close>

theorem absent_without_contract_rows_witness:
  "notebook scenario_lib (scenario_C @ scenario_A)
     = Inr [\<lparr>f_id = 1, f_application_date = Some (midnight 2024 3 1),
              tot_claim_cnt_l180d = 1, disb_bank_loan_wo_tbc = NpInt 1000,
              day_sinlastloan = - 1\<rparr>]
   \<and> filter (\<lambda>r. csv_id r = Some 3) (scenario_C @ scenario_A) = scenario_C
   \<and> list_all null_or_empty scenario_C
   \<and> 3 \<notin> f_id ` set [\<lparr>f_id = 1, f_application_date = Some (midnight 2024 3 1),
              tot_claim_cnt_l180d = 1, disb_bank_loan_wo_tbc = NpInt (1000 :: 64 word),
              day_sinlastloan = - 1\<rparr> :: real feature_row]"
proof -
  have n: "notebook scenario_lib (scenario_C @ scenario_A)
     = Inr [\<lparr>f_id = 1, f_application_date = Some (midnight 2024 3 1),
              tot_claim_cnt_l180d = 1, disb_bank_loan_wo_tbc = NpInt 1000,
              day_sinlastloan = - 1\<rparr>]"
    by (rule notebook_CA) (rule scenario_lib_ok)
  have f: "filter (\<lambda>r. csv_id r = Some 3) (scenario_C @ scenario_A) = scenario_C"
    by (simp add: scenario_C_def scenario_A_def)
  have h: "list_all null_or_empty scenario_C"
    by (simp add: scenario_C_def null_or_empty_def)
  from absent_without_contract_rows[OF n, of 3] f h
  have "3 \<notin> f_id ` set [\<lparr>f_id = 1, f_application_date = Some (midnight 2024 3 1),
              tot_claim_cnt_l180d = 1, disb_bank_loan_wo_tbc = NpInt (1000 :: 64 word),
              day_sinlastloan = - 1\<rparr> :: real feature_row]"
    by simp
  with n f h show ?thesis by blast
qed

text \<open>
  C1, as stated, fails: application 3 of scenario C has no contracts, and the table
  written for scenario C followed by scenario A has no row for it; and with a
  contracts text that is not JSON next to scenario A no table is written, as
  \<^verbatim>\<open>parse_contracts_by_explode\<close> calls \<^verbatim>\<open>json.loads\<close> outside a \<^verbatim>\<open>try\<close>.
\<close>

theorem zero_rows_application_missing:
  "map csv_id (scenario_C @ scenario_A) = [Some 3, Some 1]
   \<and> map_sum id (map f_id) (notebook scenario_lib (scenario_C @ scenario_A)) = Inr [1]
   \<and> notebook scenario_lib (scenario_A @ scenario_invalid) = Inl JSONDecodeError"
proof -
  have "map csv_id (scenario_C @ scenario_A) = [Some 3, Some 1]"
    by (simp add: scenario_C_def scenario_A_def)
  moreover have "map_sum id (map f_id) (notebook scenario_lib (scenario_C @ scenario_A)) = Inr [1]"
    by (simp add: notebook_CA[OF scenario_lib_ok])
  moreover have "notebook scenario_lib (scenario_A @ scenario_invalid) = Inl JSONDecodeError"
    by (rule notebook_A_invalid) (rule scenario_lib_ok)
  ultimately show ?thesis by simp
qed

subsection \<open>C2: scenario A\<close>




subsection \<open>C3: disb\_bank\_loan\_wo\_tbc\<close>

text \<open>
  C3, as amended. The rows of a group that survive are those with a bank that is
  present and not one of LIZ, LOM, MKO, SUG and with a contract date. When the sum
  of the integers among their \<^verbatim>\<open>loan_summa\<close> is a signed 64-bit integer,
  \<^verbatim>\<open>sum_loans_wo_tbc\<close> returns -1 when no row survives, else the sum of
  \<^verbatim>\<open>loan_summa\<close> over the surviving rows (of integers in an integer column, else of
  floats as pandas adds them), -3 in place of a sum that is not positive. When that
  holds of every group of a table with an identifier,
  \<^verbatim>\<open>calculate_disb_bank_loan_wo_tbc\<close> holds that value for every identifier of the
  table, in ascending order, the rows of an identifier being the rows with that
  \<^verbatim>\<open>id\<close>.
\<close>

theorem disb_bank_loan_wo_tbc_spec:
  "(integer_sum_fits L g \<longrightarrow> sum_loans_wo_tbc L g = spec_disb_bank_loan_wo_tbc L g)
   \<and> (identifiers df \<noteq> []
        \<and> list_all (\<lambda>k. integer_sum_fits L (rows_of df k)) (identifiers df)
        \<longrightarrow> calculate_disb_bank_loan_wo_tbc L df = Inr (spec_disb_column L df))"
  using sum_loans_spec[of L g] calculate_disb_spec[of df L] by blast

text \<open>
  The theorem at the table of scenario A, and at the table of the two applications
  of scenarios E and A.
\<close>

theorem disb_bank_loan_wo_tbc_spec_witness:
  "integer_sum_fits scenario_lib scenario_A_table
   \<and> sum_loans_wo_tbc scenario_lib scenario_A_table = NpInt 1000
   \<and> identifiers (two_applications :: real typed_row list) = [1, 5]
   \<and> list_all (\<lambda>k. integer_sum_fits scenario_lib (rows_of two_applications k))
        (identifiers (two_applications :: real typed_row list))
   \<and> calculate_disb_bank_loan_wo_tbc scenario_lib two_applications
       = Inr [(1, NpInt 1000), (5, PyInt (- 1))]"
proof -
  have s: "surviving_loans scenario_lib scenario_A_table = scenario_A_table"
    "surviving_loans scenario_lib scenario_E_group = []"
    by (simp_all add: surviving_loans_def missing_def scenario_A_table_def scenario_E_group_def)
  have i: "integer_sum (scenario_A_table :: real typed_row list) = 1000"
    "integer_sum ([] :: real typed_row list) = 0"
    "all_integers (scenario_A_table :: real typed_row list)"
    by (simp_all add: integer_sum_def all_integers_def scenario_A_table_def)
  have f: "integer_sum_fits scenario_lib scenario_A_table"
    "integer_sum_fits scenario_lib scenario_E_group"
    by (simp_all add: integer_sum_fits_def s i)
  have n: "(scenario_A_table :: real typed_row list) \<noteq> []"
    by (simp add: scenario_A_table_def)
  have v: "spec_disb_bank_loan_wo_tbc scenario_lib scenario_A_table = NpInt 1000"
    "spec_disb_bank_loan_wo_tbc scenario_lib scenario_E_group = PyInt (- 1)"
    by (simp_all add: spec_disb_bank_loan_wo_tbc_def s i n)
  have c: "spec_disb_column scenario_lib two_applications = [(1, NpInt 1000), (5, PyInt (- 1))]"
    by (simp add: spec_disb_column_def identifiers_two rows_of_two v)
  have a: "list_all (\<lambda>k. integer_sum_fits scenario_lib (rows_of two_applications k))
        (identifiers (two_applications :: real typed_row list))"
    by (simp add: identifiers_two rows_of_two f)
  from disb_bank_loan_wo_tbc_spec[of scenario_lib scenario_A_table two_applications] f v c a
    identifiers_two[where ?'a = real]
  show ?thesis by simp
qed

text \<open>
  C3, as stated, fails: two surviving loans of \<open>2 ^ 62\<close> each have the positive sum
  \<open>2 ^ 63\<close>; the \<^verbatim>\<open>int64\<close> sum of the code is negative, and -3 is returned.
\<close>

theorem int64_sum_wraps:
  "surviving_loans scenario_lib overflow_group = overflow_group
   \<and> integer_sum (surviving_loans scenario_lib overflow_group) = 9223372036854775808
   \<and> sum_loans_wo_tbc scenario_lib overflow_group = PyInt (- 3)"
proof -
  have s: "surviving_loans scenario_lib overflow_group = overflow_group"
    by (simp add: surviving_loans_def missing_def overflow_group_def loan_row_def)
  have i: "integer_sum (overflow_group :: real typed_row list) = 9223372036854775808"
    by (simp add: integer_sum_def overflow_group_def loan_row_def)
  have a: "all_integers (overflow_group :: real typed_row list)"
    "(overflow_group :: real typed_row list) \<noteq> []"
    by (simp_all add: all_integers_def overflow_group_def loan_row_def)
  have "sum_loans_wo_tbc scenario_lib overflow_group = PyInt (- 3)"
    unfolding sum_loans_eq s i using a by simp
  with s i show ?thesis by simp
qed

subsection \<open>C4: day\_sinlastloan\<close>

text \<open>
  C4, as amended. The loans of a group are its rows whose \<^verbatim>\<open>summa\<close> is present and
  strictly positive. When the application date less the latest contract date of the
  loans is a Timedelta (at most \<open>2 ^ 63 - 1\<close> nanoseconds either way),
  \<^verbatim>\<open>days_since_last_loan\<close> returns -1 with no loan, else the whole days from the
  latest contract date of the loans to the application date of the group, -3 in
  place of a number of days that is not positive and where a date is missing. When
  that holds of every group of a table with an identifier,
  \<^verbatim>\<open>calculate_day_sinlastloan\<close> holds that value for every identifier of the table,
  in ascending order. On scenario E the notebook writes 31.
\<close>

theorem day_sinlastloan_spec:
  "(difference_fits L g \<longrightarrow> days_since_last_loan L g = Inr (spec_day_sinlastloan L g))
   \<and> (identifiers df \<noteq> []
        \<and> list_all (\<lambda>k. difference_fits L (rows_of df k)) (identifiers df)
        \<longrightarrow> calculate_day_sinlastloan L df
            = Inr (map (\<lambda>k. (k, spec_day_sinlastloan L (rows_of df k))) (identifiers df)))
   \<and> (pandas_on_scenarios L
        \<longrightarrow> map_sum id (map day_sinlastloan) (notebook L scenario_E) = Inr [31])"
proof -
  have a: "difference_fits L g \<longrightarrow> days_since_last_loan L g = Inr (spec_day_sinlastloan L g)"
    by (simp add: days_eq)
  have b: "identifiers df \<noteq> []
        \<and> list_all (\<lambda>k. difference_fits L (rows_of df k)) (identifiers df)
        \<longrightarrow> calculate_day_sinlastloan L df
            = Inr (map (\<lambda>k. (k, spec_day_sinlastloan L (rows_of df k))) (identifiers df))"
  proof (intro impI, elim conjE)
    assume i: "identifiers df \<noteq> []"
      and f: "list_all (\<lambda>k. difference_fits L (rows_of df k)) (identifiers df)"
    from i have ne: "df \<noteq> []" by (auto simp add: identifiers_def)
    from f have g: "k \<in> set (identifiers df) \<Longrightarrow> difference_fits L (rows_of df k)" for k
      by (simp add: list_all_iff)
    show "calculate_day_sinlastloan L df
            = Inr (map (\<lambda>k. (k, spec_day_sinlastloan L (rows_of df k))) (identifiers df))"
      by (rule calculate_day_total[OF ne i g])
  qed
  have c: "pandas_on_scenarios L
        \<longrightarrow> map_sum id (map day_sinlastloan) (notebook L scenario_E) = Inr [31]"
    by (simp add: notebook_E)
  from a b c show ?thesis by blast
qed

theorem day_sinlastloan_spec_witness:
  "difference_fits scenario_lib scenario_E_group
   \<and> days_since_last_loan scenario_lib scenario_E_group = Inr 31
   \<and> identifiers (two_applications :: real typed_row list) = [1, 5]
   \<and> list_all (\<lambda>k. difference_fits scenario_lib (rows_of two_applications k))
        (identifiers (two_applications :: real typed_row list))
   \<and> calculate_day_sinlastloan scenario_lib two_applications = Inr [(1, - 1), (5, 31)]
   \<and> pandas_on_scenarios scenario_lib
   \<and> map_sum id (map day_sinlastloan) (notebook scenario_lib scenario_E) = Inr [31]"
proof -
  have p: "positive_summa scenario_lib scenario_E_group = scenario_E_group"
    "positive_summa scenario_lib scenario_A_table = []"
    by (simp_all add: positive_summa_def scenario_E_group_def scenario_A_table_def)
  have l: "loan_dates scenario_lib scenario_E_group = [midnight 2024 1 1]"
    "loan_dates scenario_lib scenario_A_table = []"
    by (simp_all add: loan_dates_def p) (simp add: scenario_E_group_def)
  have g: "group_application_date (scenario_E_group :: real typed_row list)
           = Some (midnight 2024 2 1)"
    "group_application_date (scenario_A_table :: real typed_row list)
           = Some (midnight 2024 3 1)"
    by (simp_all add: group_application_date_def scenario_E_group_def scenario_A_table_def)
  have f: "difference_fits scenario_lib scenario_E_group"
    "difference_fits scenario_lib scenario_A_table"
    by (simp_all add: difference_fits_def g l midnights)
  have n: "(scenario_E_group :: real typed_row list) \<noteq> []"
    by (simp add: scenario_E_group_def)
  have v: "spec_day_sinlastloan scenario_lib scenario_E_group = 31"
    "spec_day_sinlastloan scenario_lib scenario_A_table = - 1"
    by (simp_all add: spec_day_sinlastloan_def p l g n midnights ns_per_day_def)
  have a: "list_all (\<lambda>k. difference_fits scenario_lib (rows_of two_applications k))
        (identifiers (two_applications :: real typed_row list))"
    by (simp add: identifiers_two rows_of_two f)
  from day_sinlastloan_spec[of scenario_lib scenario_E_group two_applications]
    f v a identifiers_two[where ?'a = real] scenario_lib_ok
  show ?thesis by (simp add: rows_of_two v)
qed

text \<open>
  C4, as stated, fails: with a loan dated 1700-01-01 and an application on
  2024-01-01 the difference of the two dates is not a Timedelta, and the
  subtraction raises.
\<close>

theorem old_loan_raises:
  "positive_summa scenario_lib old_loan_group = old_loan_group
   \<and> loan_dates scenario_lib old_loan_group = [midnight 1700 1 1]
   \<and> group_application_date (old_loan_group :: real typed_row list) = Some (midnight 2024 1 1)
   \<and> days_since_last_loan scenario_lib old_loan_group = Inl OutOfBoundsDatetime"
proof -
  have p: "positive_summa scenario_lib old_loan_group = old_loan_group"
    by (simp add: positive_summa_def old_loan_group_def loan_row_def)
  have l: "loan_dates scenario_lib old_loan_group = [midnight 1700 1 1]"
    by (simp add: loan_dates_def p) (simp add: old_loan_group_def loan_row_def)
  have g: "group_application_date (old_loan_group :: real typed_row list)
           = Some (midnight 2024 1 1)"
    by (simp add: group_application_date_def old_loan_group_def loan_row_def)
  have "\<not> difference_fits scenario_lib old_loan_group"
    by (simp add: difference_fits_def g l midnights)
  then have "days_since_last_loan scenario_lib old_loan_group = Inl OutOfBoundsDatetime"
    by (simp add: days_eq)
  with p l g show ?thesis by simp
qed

subsection \<open>C5: tot\_claim\_cnt\_l180d\<close>

text \<open>
  C5, as amended. For every group (a group of \<^verbatim>\<open>groupby\<close> has a first row) whose
  application date A less 180 days is a Timestamp, \<^verbatim>\<open>claims_in_last_180_days\<close>
  returns the number of rows whose claim date lies in [A - 180 days, A] when that
  number is at least 1 and -3 when it is 0, A being the application date of the
  first row of the group. When that holds of every group of a table with an
  identifier, \<^verbatim>\<open>calculate_tot_claim_cnt_l180d\<close> holds that value for every
  identifier of the table, in ascending order. The value is never 0.
\<close>

theorem tot_claim_cnt_l180d_spec:
  "(g \<noteq> [] \<and> window_fits g
      \<longrightarrow> claims_in_last_180_days g = Inr (spec_tot_claim_cnt_l180d g))
   \<and> (identifiers df \<noteq> [] \<and> list_all (\<lambda>k. window_fits (rows_of df k)) (identifiers df)
        \<longrightarrow> calculate_tot_claim_cnt_l180d df
            = Inr (map (\<lambda>k. (k, spec_tot_claim_cnt_l180d (rows_of df k))) (identifiers df)))
   \<and> spec_tot_claim_cnt_l180d g \<noteq> 0
   \<and> claims_in_last_180_days g \<noteq> Inr 0"
proof -
  have a: "g \<noteq> [] \<and> window_fits g
      \<longrightarrow> claims_in_last_180_days g = Inr (spec_tot_claim_cnt_l180d g)"
    by (simp add: claims_nonempty)
  have b: "identifiers df \<noteq> [] \<and> list_all (\<lambda>k. window_fits (rows_of df k)) (identifiers df)
        \<longrightarrow> calculate_tot_claim_cnt_l180d df
            = Inr (map (\<lambda>k. (k, spec_tot_claim_cnt_l180d (rows_of df k))) (identifiers df))"
  proof (intro impI, elim conjE)
    assume i: "identifiers df \<noteq> []"
      and f: "list_all (\<lambda>k. window_fits (rows_of df k)) (identifiers df)"
    from i have ne: "df \<noteq> []" by (auto simp add: identifiers_def)
    from f have g: "k \<in> set (identifiers df) \<Longrightarrow> window_fits (rows_of df k)" for k
      by (simp add: list_all_iff)
    show "calculate_tot_claim_cnt_l180d df
            = Inr (map (\<lambda>k. (k, spec_tot_claim_cnt_l180d (rows_of df k))) (identifiers df))"
      by (rule calculate_tot_total[OF ne i g])
  qed
  from a b spec_tot_never_zero[of g] claims_never_zero[of g] show ?thesis by blast
qed

theorem tot_claim_cnt_l180d_spec_witness:
  "(scenario_A_table :: real typed_row list) \<noteq> []
   \<and> window_fits (scenario_A_table :: real typed_row list)
   \<and> claims_in_last_180_days (scenario_A_table :: real typed_row list) = Inr 1
   \<and> identifiers (two_applications :: real typed_row list) = [1, 5]
   \<and> list_all (\<lambda>k. window_fits (rows_of (two_applications :: real typed_row list) k))
        (identifiers (two_applications :: real typed_row list))
   \<and> calculate_tot_claim_cnt_l180d (two_applications :: real typed_row list)
       = Inr [(1, 1), (5, - 3)]"
proof -
  have g: "group_application_date (scenario_E_group :: real typed_row list)
           = Some (midnight 2024 2 1)"
    "group_application_date (scenario_A_table :: real typed_row list)
           = Some (midnight 2024 3 1)"
    by (simp_all add: group_application_date_def scenario_E_group_def scenario_A_table_def)
  have n: "(scenario_A_table :: real typed_row list) \<noteq> []"
    by (simp add: scenario_A_table_def)
  have f: "window_fits (scenario_A_table :: real typed_row list)"
    "window_fits (scenario_E_group :: real typed_row list)"
    by (simp_all add: window_fits_def g midnights ns_per_day_def)
  have v: "spec_tot_claim_cnt_l180d (scenario_A_table :: real typed_row list) = 1"
    "spec_tot_claim_cnt_l180d (scenario_E_group :: real typed_row list) = - 3"
    by (simp_all add: spec_tot_claim_cnt_l180d_def window_count_def g)
      (simp_all add: scenario_A_table_def scenario_E_group_def midnights ns_per_day_def)
  have a: "list_all (\<lambda>k. window_fits (rows_of (two_applications :: real typed_row list) k))
        (identifiers (two_applications :: real typed_row list))"
    by (simp add: identifiers_two rows_of_two f)
  from tot_claim_cnt_l180d_spec[of "scenario_A_table :: real typed_row list"
      "two_applications :: real typed_row list"]
    n f v a identifiers_two[where ?'a = real]
  show ?thesis by (simp add: rows_of_two v)
qed

text \<open>
  C5, as stated, fails: for an application on 1677-12-01 the start of the window
  is before the first Timestamp, and the subtraction raises.
\<close>

theorem early_application_raises:
  "group_application_date (early_group :: real typed_row list) = Some (midnight 1677 12 1)
   \<and> claims_in_last_180_days (early_group :: real typed_row list) = Inl OutOfBoundsDatetime"
  by (simp add: group_application_date_def early_group_def loan_row_def
      claims_in_last_180_days_def iloc0_def minus_days_def in_bounds_def ts_max_def
      midnights ns_per_day_def)

subsection \<open>C6: order and duplicates\<close>

text \<open>
  C6. \<^verbatim>\<open>sort_values\<close> permutes the records into ascending order of identifier, then
  application date, then contracts text, a missing value after every present one;
  the records that \<^verbatim>\<open>drop_duplicates\<close> keeps are those at the positions that are
  the last with their contracts text in that order; the rows of \<^verbatim>\<open>parse_contracts\<close>
  are the rows of the kept records, in order. Two records with the same id and
  contracts text and application dates \<open>d1 < d2\<close> give the rows of the record
  dated \<open>d2\<close> alone, in whichever order the input holds them.
\<close>

theorem normalizer_order_and_dedup:
  "sorted_wrt record_order (sort_values data) \<and> mset (sort_values data) = mset data
   \<and> drop_duplicates (sort_values data)
       = map (\<lambda>i. sort_values data ! i)
           (filter (last_occurrence (sort_values data)) [0..<length (sort_values data)])
   \<and> (parse_contracts L data = Inr rows
        \<longrightarrow> (\<exists>rss. list_all2 (\<lambda>r rs. record_rows L r = Inr rs)
                       (drop_duplicates (sort_values data)) rss
                   \<and> rows = concat rss))
   \<and> (d1 < d2
        \<longrightarrow> parse_contracts L [\<lparr>csv_id = i, csv_application_date = Some d1, csv_contracts = c\<rparr>,
                                 \<lparr>csv_id = i, csv_application_date = Some d2, csv_contracts = c\<rparr>]
              = record_rows L \<lparr>csv_id = i, csv_application_date = Some d2, csv_contracts = c\<rparr>
            \<and> parse_contracts L [\<lparr>csv_id = i, csv_application_date = Some d2, csv_contracts = c\<rparr>,
                                 \<lparr>csv_id = i, csv_application_date = Some d1, csv_contracts = c\<rparr>]
              = record_rows L \<lparr>csv_id = i, csv_application_date = Some d2, csv_contracts = c\<rparr>)"
proof -
  have "parse_contracts L data = Inr rows
        \<longrightarrow> (\<exists>rss. list_all2 (\<lambda>r rs. record_rows L r = Inr rs)
                       (drop_duplicates (sort_values data)) rss
                   \<and> rows = concat rss)"
    using parse_loop_concat[of L "drop_duplicates (sort_values data)" rows]
    by (simp add: parse_contracts_def)
  then show ?thesis
    using sort_values_order[of data] sort_values_mset[of data]
      drop_duplicates_nth[of "sort_values data"] same_text_later_date[of d1 d2 L i c]
    by blast
qed

text \<open>The theorem at scenario D, in both orders of its two records.\<close>

theorem normalizer_order_and_dedup_witness:
  "''2024-02-01'' < ''2024-03-01''
   \<and> sort_values (rev scenario_D) = scenario_D
   \<and> sorted_wrt record_order scenario_D
   \<and> parse_contracts scenario_lib scenario_D = Inr [scenario_D_row]
   \<and> parse_contracts scenario_lib (rev scenario_D) = Inr [scenario_D_row]
   \<and> (\<exists>rss. list_all2 (\<lambda>r rs. record_rows scenario_lib r = Inr rs)
                (drop_duplicates (sort_values scenario_D)) rss
            \<and> [scenario_D_row] = concat rss)"
proof -
  have lt: "''2024-02-01'' < ''2024-03-01''" by simp
  have s: "sort_values (rev scenario_D) = scenario_D"
    by (simp add: scenario_D_def sort_values_def sort_key_of_def na_last_def)
  have p: "parse_contracts scenario_lib scenario_D = Inr [scenario_D_row]"
    by (rule parse_D) (rule scenario_lib_ok)
  note T = normalizer_order_and_dedup[of scenario_D scenario_lib "[scenario_D_row]"
      "''2024-02-01''" "''2024-03-01''" "Some 4" "Some scenario_A_text"]
  note R = normalizer_order_and_dedup[of "rev scenario_D"]
  from R have o: "sorted_wrt record_order scenario_D"
    unfolding s by blast
  from T p have ex: "\<exists>rss. list_all2 (\<lambda>r rs. record_rows scenario_lib r = Inr rs)
                (drop_duplicates (sort_values scenario_D)) rss
            \<and> [scenario_D_row] = concat rss"
    by blast
  from T lt have both:
    "parse_contracts scenario_lib
       [\<lparr>csv_id = Some 4, csv_application_date = Some ''2024-02-01'',
          csv_contracts = Some scenario_A_text\<rparr>,
        \<lparr>csv_id = Some 4, csv_application_date = Some ''2024-03-01'',
          csv_contracts = Some scenario_A_text\<rparr>]
     = record_rows scenario_lib \<lparr>csv_id = Some 4, csv_application_date = Some ''2024-03-01'',
          csv_contracts = Some scenario_A_text\<rparr>"
    "parse_contracts scenario_lib
       [\<lparr>csv_id = Some 4, csv_application_date = Some ''2024-03-01'',
          csv_contracts = Some scenario_A_text\<rparr>,
        \<lparr>csv_id = Some 4, csv_application_date = Some ''2024-02-01'',
          csv_contracts = Some scenario_A_text\<rparr>]
     = record_rows scenario_lib \<lparr>csv_id = Some 4, csv_application_date = Some ''2024-03-01'',
          csv_contracts = Some scenario_A_text\<rparr>"
    by blast+
  have r: "parse_contracts scenario_lib (rev scenario_D) = Inr [scenario_D_row]"
    using both p by (simp add: scenario_D_def)
  from lt s o p r ex show ?thesis by blast
qed

subsection \<open>C7: converting twice\<close>

text \<open>
  C7, as amended. On a table that \<^verbatim>\<open>convert_data_types\<close> returned, a second call
  with \<^verbatim>\<open>by_explode=True\<close> (the date and amount columns only, which is how the
  notebook calls it again) returns the same table; a second call with
  \<^verbatim>\<open>by_explode=False\<close> raises \<^verbatim>\<open>AttributeError\<close>, because \<^verbatim>\<open>application_date\<close>
  is a datetime column by then and has no \<^verbatim>\<open>.str\<close>.
\<close>

theorem convert_again:
  "convert_data_types L df b = Inr df' \<Longrightarrow>
   convert_data_types L df' True = Inr df'
   \<and> (\<not> b \<longrightarrow> convert_data_types L df' False = Inl AttributeError)"
  using convert_again_True convert_again_False by (cases b) auto

theorem convert_again_witness:
  "convert_data_types scenario_lib scenario_A_frame False = Inr scenario_A_converted
   \<and> convert_data_types scenario_lib scenario_A_converted True = Inr scenario_A_converted
   \<and> convert_data_types scenario_lib scenario_A_converted False = Inl AttributeError"
  using convert_again[of scenario_lib scenario_A_frame False scenario_A_converted]
    convert_A[OF scenario_lib_ok] by simp

text \<open>
  C7, as stated, fails: the table of scenario A converts, and converting the result
  again in the same way does not return it.
\<close>

theorem convert_twice_raises:
  "convert_data_types scenario_lib scenario_A_frame False = Inr scenario_A_converted
   \<and> convert_data_types scenario_lib scenario_A_converted False \<noteq> Inr scenario_A_converted"
  using convert_again_False[OF convert_A[OF scenario_lib_ok]] convert_A[OF scenario_lib_ok]
  by simp

subsection \<open>C8: the type of the sentinels\<close>

text \<open>
  C8. On scenario B, where the only contract is of the excluded bank MKO, the value
  written for \<^verbatim>\<open>disb_bank_loan_wo_tbc\<close> is the Python integer -1 that
  \<^verbatim>\<open>sum_loans_wo_tbc\<close> returns: no group returned a float, so pandas builds an
  integer column.
\<close>

theorem scenario_B_sentinel_is_int:
  "notebook scenario_lib scenario_B
     = Inr [\<lparr>f_id = 2, f_application_date = Some (midnight 2024 3 1),
              tot_claim_cnt_l180d = - 3, disb_bank_loan_wo_tbc = PyInt (- 1),
              day_sinlastloan = - 1\<rparr>]"
  by (rule notebook_B) (rule scenario_lib_ok)

subsection \<open>C9: contracts texts that are skipped\<close>

text \<open>
  C9, as amended. A record whose contracts text is missing, empty or not JSON adds
  no row and raises nothing: \<^verbatim>\<open>parse_contracts\<close> returns what it returns without
  these records. A text that is JSON of another shape is not recovered: a number, a
  boolean or \<^verbatim>\<open>null\<close> raises \<^verbatim>\<open>TypeError\<close> and a string that is not empty raises
  \<^verbatim>\<open>AttributeError\<close>, neither of which \<^verbatim>\<open>except json.JSONDecodeError\<close> catches.
\<close>

theorem skipped_payloads:
  "(no_payload L r \<longrightarrow> record_rows L r = Inr [])
   \<and> parse_contracts L data
       = parse_loop L (filter (\<lambda>r. \<not> no_payload L r) (drop_duplicates (sort_values data)))
   \<and> (list_all (no_payload L) data \<longrightarrow> parse_contracts L data = Inr [])
   \<and> (csv_contracts r = Some s \<and> s \<noteq> [] \<and> json_loads L s = Some v
        \<and> (v = JNull \<or> v = JBool bl \<or> v = JInt n \<or> v = JFloat x)
        \<longrightarrow> record_rows L r = Inl TypeError)
   \<and> (csv_contracts r = Some s \<and> s \<noteq> [] \<and> json_loads L s = Some (JStr (ch # t))
        \<longrightarrow> record_rows L r = Inl AttributeError)"
proof -
  have a: "no_payload L r \<longrightarrow> record_rows L r = Inr []"
    by (simp add: no_payload_rows)
  have b: "parse_contracts L data
       = parse_loop L (filter (\<lambda>r. \<not> no_payload L r) (drop_duplicates (sort_values data)))"
    unfolding parse_contracts_def by (rule parse_loop_filter)
  have c: "list_all (no_payload L) data \<longrightarrow> parse_contracts L data = Inr []"
    by (simp add: parse_contracts_all_skipped)
  have d: "csv_contracts r = Some s \<and> s \<noteq> [] \<and> json_loads L s = Some v
        \<and> (v = JNull \<or> v = JBool bl \<or> v = JInt n \<or> v = JFloat x)
        \<longrightarrow> record_rows L r = Inl TypeError"
    by (auto simp add: record_rows_def iterate_def)
  have e: "csv_contracts r = Some s \<and> s \<noteq> [] \<and> json_loads L s = Some (JStr (ch # t))
        \<longrightarrow> record_rows L r = Inl AttributeError"
    by (auto simp add: record_rows_def iterate_def make_row_def)
  from a b c d e show ?thesis by blast
qed

theorem skipped_payloads_witness:
  "no_payload scenario_lib (hd scenario_C)
   \<and> record_rows scenario_lib (hd scenario_C) = Inr []
   \<and> list_all (no_payload scenario_lib) scenario_C
   \<and> parse_contracts scenario_lib scenario_C = Inr []
   \<and> json_loads scenario_lib ''5'' = Some (JInt 5)
   \<and> record_rows scenario_lib (hd scenario_number) = Inl TypeError"
proof -
  have n: "no_payload scenario_lib (hd scenario_C)" "list_all (no_payload scenario_lib) scenario_C"
    by (simp_all add: scenario_C_def no_payload_def)
  have j: "json_loads scenario_lib ''5'' = Some (JInt 5)"
    using scenario_lib_ok by (simp add: pandas_on_scenarios_def)
  from skipped_payloads[of scenario_lib "hd scenario_C" scenario_C]
    skipped_payloads[of scenario_lib "hd scenario_number" _ "''5''" "JInt 5" _ 5] n j
  show ?thesis
    by (simp add: scenario_number_def)
qed

text \<open>
  C9, as stated, fails: on a record whose contracts text is \<^verbatim>\<open>5\<close> the exception
  leaves \<^verbatim>\<open>parse_contracts\<close>.
\<close>

theorem number_payload_raises:
  "parse_contracts scenario_lib scenario_number = Inl TypeError"
  by (rule parse_number) (rule scenario_lib_ok)

subsection \<open>C10: loans without a contract date\<close>

text \<open>
  C10. When a group has a row whose \<^verbatim>\<open>summa\<close> is present and positive and none
  of these rows has a contract date, \<^verbatim>\<open>days_since_last_loan\<close> returns -3.
\<close>

theorem undated_loans_give_minus_3:
  "positive_summa L g \<noteq> [] \<Longrightarrow> list_all (\<lambda>r. contract_date r = None) (positive_summa L g)
   \<Longrightarrow> days_since_last_loan L g = Inr (- 3)"
proof -
  assume p: "positive_summa L g \<noteq> []"
    and n: "list_all (\<lambda>r. contract_date r = None) (positive_summa L g)"
  from n have l: "loan_dates L g = []"
    by (auto simp add: loan_dates_def list_all_iff)
  then have "difference_fits L g"
    by (simp add: difference_fits_def split: option.splits)
  moreover from p l have "spec_day_sinlastloan L g = - 3"
    by (simp add: spec_day_sinlastloan_def split: option.splits)
  ultimately show ?thesis by (simp add: days_eq)
qed

theorem undated_loans_give_minus_3_witness:
  "positive_summa scenario_lib undated_group \<noteq> []
   \<and> list_all (\<lambda>r. contract_date r = None) (positive_summa scenario_lib undated_group)
   \<and> days_since_last_loan scenario_lib undated_group = Inr (- 3)"
proof -
  have p: "positive_summa scenario_lib undated_group \<noteq> []"
    "list_all (\<lambda>r. contract_date r = None) (positive_summa scenario_lib undated_group)"
    by (simp_all add: positive_summa_def undated_group_def)
  from undated_loans_give_minus_3[OF p] p show ?thesis by simp
qed

end
